theory Spec2Isabelle
  imports Main "HOL-Library.Sublist" "HOL-Library.Char_ord" "HOL-Library.List_Lexorder"
begin

section \<open>Go string helpers\<close>

text \<open>
  Go strings are byte sequences; they are modelled as \<open>string\<close> (a list of characters).
  The helpers below follow the functions of Go's \<open>strings\<close> package that the
  repository calls, for the single-byte separators and cut sets it passes to them.
\<close>

text \<open>\<open>strings.HasPrefix(s, p)\<close>.\<close>

fun hasPrefix :: "string \<Rightarrow> string \<Rightarrow> bool" where
  "hasPrefix s [] = True"
| "hasPrefix [] (p # ps) = False"
| "hasPrefix (c # cs) (p # ps) = (c = p \<and> hasPrefix cs ps)"

text \<open>\<open>strings.HasSuffix(s, p)\<close>.\<close>

definition hasSuffix :: "string \<Rightarrow> string \<Rightarrow> bool" where
  "hasSuffix s p = hasPrefix (rev s) (rev p)"

text \<open>\<open>strings.Contains(s, sub)\<close>.\<close>

fun containsStr :: "string \<Rightarrow> string \<Rightarrow> bool" where
  "containsStr [] sub = (sub = [])"
| "containsStr (c # cs) sub = (hasPrefix (c # cs) sub \<or> containsStr cs sub)"

text \<open>\<open>strings.TrimSuffix(s, suf)\<close>: removes one trailing occurrence of \<open>suf\<close>.\<close>

definition trimSuffix :: "string \<Rightarrow> string \<Rightarrow> string" where
  "trimSuffix s suf = (if hasSuffix s suf then take (length s - length suf) s else s)"

text \<open>\<open>strings.TrimPrefix(s, p)\<close>.\<close>

definition trimPrefix :: "string \<Rightarrow> string \<Rightarrow> string" where
  "trimPrefix s p = (if hasPrefix s p then drop (length p) s else s)"

text \<open>\<open>strings.TrimLeft(s, cutset)\<close> and \<open>strings.Trim(s, cutset)\<close>.\<close>

definition trimLeft :: "string \<Rightarrow> string \<Rightarrow> string" where
  "trimLeft s cutset = dropWhile (\<lambda>c. c \<in> set cutset) s"

definition trim :: "string \<Rightarrow> string \<Rightarrow> string" where
  "trim s cutset = rev (dropWhile (\<lambda>c. c \<in> set cutset) (rev (dropWhile (\<lambda>c. c \<in> set cutset) s)))"

text \<open>
  White space. Go's \<open>unicode.IsSpace\<close> holds of the runes U+0009 to U+000D, U+0020,
  U+0085, U+00A0, U+1680, U+2000 to U+200A, U+2028, U+2029, U+202F, U+205F and U+3000;
  \<open>spaceRunes\<close> lists their UTF-8 encodings, byte by byte. Each of these runes has one
  valid encoding, and a byte that starts no valid encoding decodes to U+FFFD, which is
  not white space: so the rune decoded at the start of a string is white space exactly
  when the string starts with one of these byte sequences, and the rune decoded at its
  end is white space exactly when the string ends with one of them. \<open>leadingSpace\<close> and
  \<open>trailingSpace\<close> give the width in bytes of that rune, and 0 when there is none.
\<close>

definition spaceRunes :: "string list" where
  "spaceRunes =
     [[CHR 0x09], [CHR 0x0A], [CHR 0x0B], [CHR 0x0C], [CHR 0x0D], [CHR 0x20],
      [CHR 0xC2, CHR 0x85], [CHR 0xC2, CHR 0xA0],
      [CHR 0xE1, CHR 0x9A, CHR 0x80],
      [CHR 0xE2, CHR 0x80, CHR 0x80], [CHR 0xE2, CHR 0x80, CHR 0x81],
      [CHR 0xE2, CHR 0x80, CHR 0x82], [CHR 0xE2, CHR 0x80, CHR 0x83],
      [CHR 0xE2, CHR 0x80, CHR 0x84], [CHR 0xE2, CHR 0x80, CHR 0x85],
      [CHR 0xE2, CHR 0x80, CHR 0x86], [CHR 0xE2, CHR 0x80, CHR 0x87],
      [CHR 0xE2, CHR 0x80, CHR 0x88], [CHR 0xE2, CHR 0x80, CHR 0x89],
      [CHR 0xE2, CHR 0x80, CHR 0x8A],
      [CHR 0xE2, CHR 0x80, CHR 0xA8], [CHR 0xE2, CHR 0x80, CHR 0xA9],
      [CHR 0xE2, CHR 0x80, CHR 0xAF], [CHR 0xE2, CHR 0x81, CHR 0x9F],
      [CHR 0xE3, CHR 0x80, CHR 0x80]]"

definition leadingSpace :: "string \<Rightarrow> nat" where
  "leadingSpace s = (case find (hasPrefix s) spaceRunes of None \<Rightarrow> 0 | Some e \<Rightarrow> length e)"

definition trailingSpace :: "string \<Rightarrow> nat" where
  "trailingSpace s = (case find (hasSuffix s) spaceRunes of None \<Rightarrow> 0 | Some e \<Rightarrow> length e)"

text \<open>
  \<open>strings.TrimSpace(s)\<close>: the white-space runes at the start are removed, then those at
  the end.
\<close>

function trimLeftSpace :: "string \<Rightarrow> string" where
  "trimLeftSpace s = (if leadingSpace s = 0 then s else trimLeftSpace (drop (leadingSpace s) s))"
  by pat_completeness auto
termination
  apply (relation "measure length")
   apply simp
  apply (case_tac s)
   apply (simp_all add: leadingSpace_def spaceRunes_def)
  done

declare trimLeftSpace.simps [simp del]

function trimRightSpace :: "string \<Rightarrow> string" where
  "trimRightSpace s =
     (if trailingSpace s = 0 then s else trimRightSpace (take (length s - trailingSpace s) s))"
  by pat_completeness auto
termination
  apply (relation "measure length")
   apply simp
  apply (case_tac s)
   apply (simp_all add: trailingSpace_def hasSuffix_def spaceRunes_def)
  done

declare trimRightSpace.simps [simp del]

definition trimSpace :: "string \<Rightarrow> string" where
  "trimSpace s = trimRightSpace (trimLeftSpace s)"

text \<open>\<open>strings.Split(s, sep)\<close> for a one-byte separator: never returns the empty list.\<close>

fun splitChar :: "char \<Rightarrow> string \<Rightarrow> string list" where
  "splitChar c [] = [[]]"
| "splitChar c (x # xs) =
     (if x = c then [] # splitChar c xs
      else (case splitChar c xs of [] \<Rightarrow> [[x]] | w # ws \<Rightarrow> (x # w) # ws))"

text \<open>\<open>strings.ReplaceAll(s, old, new)\<close> for one-byte \<open>old\<close> and \<open>new\<close>.\<close>

definition replaceChar :: "char \<Rightarrow> char \<Rightarrow> string \<Rightarrow> string" where
  "replaceChar old new s = map (\<lambda>c. if c = old then new else c) s"


section \<open>Remote parsing\<close>

text \<open>
  The two fields of Go's \<open>url.URL\<close> that \<open>parseRemote\<close> reads. \<open>url.Parse\<close>
  belongs to Go's standard library, not to the repository: it is a parameter of the
  model, returning \<open>None\<close> where \<open>url.Parse\<close> returns an error.
\<close>

record URL =
  Host :: string
  Path :: string

text \<open>
  The list of the last two path segments, as \<open>parts[len(parts)-2]\<close> and
  \<open>parts[len(parts)-1]\<close> select them; the caller checks \<open>len(parts) >= 2\<close> first.
\<close>

definition lastTwo :: "string list \<Rightarrow> string \<times> string" where
  "lastTwo parts = (parts ! (length parts - 2), parts ! (length parts - 1))"

text \<open>
  The guard of the SCP-like branch of \<open>parseRemote\<close> (a colon, an at sign before the
  first colon, and no \<open>://\<close>), the text left of the first colon and the text right of it.
\<close>

definition scpLike :: "string \<Rightarrow> bool" where
  "scpLike remote =
     (CHR '':'' \<in> set remote
      \<and> containsStr (takeWhile (\<lambda>c. c \<noteq> CHR '':'') remote) ''@''
      \<and> \<not> containsStr remote ''://'')"

definition scpLeft :: "string \<Rightarrow> string" where
  "scpLeft remote = takeWhile (\<lambda>c. c \<noteq> CHR '':'') remote"

definition scpRight :: "string \<Rightarrow> string" where
  "scpRight remote = tl (dropWhile (\<lambda>c. c \<noteq> CHR '':'') remote)"

definition scpParts :: "string \<Rightarrow> string list" where
  "scpParts remote = splitChar CHR ''/'' (trimSuffix (scpRight remote) ''.git'')"

definition urlParts :: "URL \<Rightarrow> string list" where
  "urlParts u = splitChar CHR ''/'' (trim (trimSuffix (Path u) ''.git'') ''/'')"

definition parseRemote :: "(string \<Rightarrow> URL option) \<Rightarrow> string \<Rightarrow> string \<times> string \<times> string" where
  "parseRemote urlParse remote =
     (if scpLike remote \<and> 2 \<le> length (scpParts remote)
      then (let left = scpLeft remote;
                host = rev (takeWhile (\<lambda>c. c \<noteq> CHR ''@'') (rev left));
                (owner, repo) = lastTwo (scpParts remote)
            in (host, owner, repo))
      else (case urlParse remote of
              None \<Rightarrow> ('''', '''', '''')
            | Some u \<Rightarrow>
                if Host u \<noteq> '''' \<and> 2 \<le> length (urlParts u)
                then (let (owner, repo) = lastTwo (urlParts u) in (Host u, owner, repo))
                else ('''', '''', '''')))"

text \<open>
  What Go's \<open>url.Parse\<close> returns on the sample remotes: host and path for the three
  URL-like ones, an error (the first path segment contains a colon) for the SCP-like ones.
\<close>

definition urlParse_sample :: "string \<Rightarrow> URL option" where
  "urlParse_sample s =
     (if s = ''https://host/o/r.git'' then Some \<lparr>Host = ''host'', Path = ''/o/r.git''\<rparr>
      else if s = ''https://host/r.git'' then Some \<lparr>Host = ''host'', Path = ''/r.git''\<rparr>
      else if s = ''https://host/d/'' then Some \<lparr>Host = ''host'', Path = ''/d/''\<rparr>
      else None)"

section \<open>Machine integers, decimal text and time\<close>

text \<open>
  Go's \<open>int64\<close> (and \<open>int\<close> on a 64-bit platform) is modelled as \<open>int\<close> with the
  wrap-around written out: \<open>wrap64\<close> is the two's complement reading of the low 64 bits.
  Go's integer division truncates towards zero.
\<close>

definition wrap64 :: "int \<Rightarrow> int" where
  "wrap64 x = (x + 2 ^ 63) mod 2 ^ 64 - 2 ^ 63"

definition add64 :: "int \<Rightarrow> int \<Rightarrow> int" where
  "add64 a b = wrap64 (a + b)"

definition sub64 :: "int \<Rightarrow> int \<Rightarrow> int" where
  "sub64 a b = wrap64 (a - b)"

definition mul64 :: "int \<Rightarrow> int \<Rightarrow> int" where
  "mul64 a b = wrap64 (a * b)"

definition quot64 :: "int \<Rightarrow> int \<Rightarrow> int" where
  "quot64 a b = wrap64 (sgn a * sgn b * (\<bar>a\<bar> div \<bar>b\<bar>))"

text \<open>Decimal digits, and \<open>strconv.ParseInt(s, 10, 64)\<close>: \<open>None\<close> where Go returns an error
  (empty text, a character that is not a digit after the optional sign, or a value outside
  the \<open>int64\<close> range).\<close>

definition isDigit :: "char \<Rightarrow> bool" where
  "isDigit c = (48 \<le> (of_char c :: nat) \<and> (of_char c :: nat) \<le> 57)"

definition digitVal :: "char \<Rightarrow> int" where
  "digitVal c = of_char c - 48"

definition digitsVal :: "string \<Rightarrow> int" where
  "digitsVal ds = foldl (\<lambda>acc c. acc * 10 + digitVal c) 0 ds"

definition parseUintText :: "string \<Rightarrow> int option" where
  "parseUintText ds = (if ds = [] \<or> \<not> list_all isDigit ds then None else Some (digitsVal ds))"

definition parseInt64 :: "string \<Rightarrow> int option" where
  "parseInt64 s =
     (case s of
        [] \<Rightarrow> None
      | c # rest \<Rightarrow>
          (let neg = (c = CHR ''-'');
               ds = (if c = CHR ''+'' \<or> c = CHR ''-'' then rest else s)
           in case parseUintText ds of
                None \<Rightarrow> None
              | Some un \<Rightarrow>
                  if \<not> neg \<and> 2 ^ 63 \<le> un then None
                  else if neg \<and> 2 ^ 63 < un then None
                  else Some (if neg then - un else un)))"

text \<open>The text of \<open>fmt.Sprintf("%d", n)\<close>, and of \<open>%02d\<close> and \<open>%09d\<close> for \<open>n \<ge> 0\<close>.\<close>

definition digitChar :: "nat \<Rightarrow> char" where
  "digitChar n = char_of (48 + n)"

fun decimalNat :: "nat \<Rightarrow> string" where
  "decimalNat n = (if n < 10 then [digitChar n] else decimalNat (n div 10) @ [digitChar (n mod 10)])"

declare decimalNat.simps [simp del]

definition decimalInt :: "int \<Rightarrow> string" where
  "decimalInt i = (if i < 0 then CHR ''-'' # decimalNat (nat (- i)) else decimalNat (nat i))"

definition padZero :: "nat \<Rightarrow> nat \<Rightarrow> string" where
  "padZero w n = replicate (w - length (decimalNat n)) CHR ''0'' @ decimalNat n"

text \<open>
  A \<open>time.Time\<close> is modelled by its number of nanoseconds since the Unix epoch, a
  \<open>time.Duration\<close> by its number of nanoseconds. \<open>time.Unix(sec, 0)\<close> stores
  \<open>sec + unixToInternal\<close> in an \<open>int64\<close>; \<open>Time.Sub\<close> saturates at the bounds of
  \<open>Duration\<close>.
\<close>

definition unixToInternal :: int where
  "unixToInternal = 62135596800"

definition time_Unix :: "int \<Rightarrow> int" where
  "time_Unix sec = (wrap64 (sec + unixToInternal) - unixToInternal) * 1000000000"

definition maxDuration :: int where
  "maxDuration = 2 ^ 63 - 1"

definition minDuration :: int where
  "minDuration = - (2 ^ 63)"

definition time_Sub :: "int \<Rightarrow> int \<Rightarrow> int" where
  "time_Sub t u =
     (if maxDuration < t - u then maxDuration
      else if t - u < minDuration then minDuration
      else t - u)"

definition Second :: int where
  "Second = 1000000000"

definition Hour :: int where
  "Hour = 3600 * Second"


section \<open>Ports\<close>

text \<open>
  The errors a filesystem call returns, by the three classes the port distinguishes
  (\<open>IsNotExist\<close>, \<open>IsExist\<close>, \<open>IsPermission\<close>), and any other error with its message.
\<close>

datatype fserr = ErrNotExist | ErrExist | ErrPermission | ErrOther string

text \<open>The \<open>FileInfo\<close> and \<open>DirEntry\<close> interfaces, by the values of their methods.\<close>

record FileInfo =
  Name :: string
  Size :: int
  Mode :: nat
  ModTime :: int
  IsDir :: bool
  IsSymlink :: bool
  IsRegular :: bool

datatype DirEntry = DirEntry (entryName: string) (entryIsDir: bool)

text \<open>
  \<open>FileSystemPort\<close>: the interface through which the use cases reach the disk. The
  disk is an explicit state \<open>'s\<close>: a reading method takes it, a writing method returns the
  new one together with its error (\<open>None\<close> for \<open>nil\<close>). \<open>Stat\<close> and \<open>Lstat\<close> return a
  file info exactly when they return no error. \<open>Walk\<close> gives the calls it makes to its
  callback (path, info or \<open>nil\<close>, error or \<open>nil\<close>), in order, for a callback that
  returns \<open>nil\<close>, and its own result. The context argument of every method is left out.
\<close>

record 's FileSystemPort =
  ReadFile :: "string \<Rightarrow> 's \<Rightarrow> fserr + string"
  WriteFile :: "string \<Rightarrow> string \<Rightarrow> nat \<Rightarrow> 's \<Rightarrow> fserr option \<times> 's"
  CreateDir :: "string \<Rightarrow> nat \<Rightarrow> 's \<Rightarrow> fserr option \<times> 's"
  CreateDirExclusive :: "string \<Rightarrow> nat \<Rightarrow> 's \<Rightarrow> fserr option \<times> 's"
  RemoveAll :: "string \<Rightarrow> 's \<Rightarrow> fserr option \<times> 's"
  Stat :: "string \<Rightarrow> 's \<Rightarrow> fserr + FileInfo"
  Lstat :: "string \<Rightarrow> 's \<Rightarrow> fserr + FileInfo"
  Walk :: "string \<Rightarrow> 's \<Rightarrow> (string \<times> FileInfo option \<times> fserr option) list \<times> fserr option"
  ReadDir :: "string \<Rightarrow> 's \<Rightarrow> fserr + DirEntry list"
  Copy :: "string \<Rightarrow> string \<Rightarrow> 's \<Rightarrow> fserr option \<times> 's"
  Move :: "string \<Rightarrow> string \<Rightarrow> 's \<Rightarrow> fserr option \<times> 's"
  Readlink :: "string \<Rightarrow> 's \<Rightarrow> fserr + string"
  Symlink :: "string \<Rightarrow> string \<Rightarrow> 's \<Rightarrow> fserr option \<times> 's"
  Chmod :: "string \<Rightarrow> nat \<Rightarrow> 's \<Rightarrow> fserr option \<times> 's"
  Join :: "string list \<Rightarrow> string"
  Dir :: "string \<Rightarrow> string"
  Rel :: "string \<Rightarrow> string \<Rightarrow> fserr + string"
  IsNotExist :: "fserr \<Rightarrow> bool"
  IsExist :: "fserr \<Rightarrow> bool"
  IsPermission :: "fserr \<Rightarrow> bool"


section \<open>An in-memory filesystem\<close>

text \<open>
  A small implementation of the port, in the manner of the test adapters of the
  repository, on which the model is run on concrete disks. A disk is a list of paths with
  their nodes; paths are slash-separated and compared as written; the root \<open>/\<close> and the
  current directory \<open>.\<close> always exist, and joining skips empty elements and \<open>.\<close>. A
  walk visits the tree in the order of the list; a move renames one node.
\<close>

datatype node = NDir | NFile string int int | NLink string

type_synonym memdisk = "(string \<times> node) list"

definition parentPath :: "string \<Rightarrow> string" where
  "parentPath p =
     (if CHR ''/'' \<notin> set p then ''.''
      else (let d = rev (tl (dropWhile (\<lambda>c. c \<noteq> CHR ''/'') (rev p)))
            in if d = [] then ''/'' else d))"

definition basePath :: "string \<Rightarrow> string" where
  "basePath p = rev (takeWhile (\<lambda>c. c \<noteq> CHR ''/'') (rev p))"

fun joinPath :: "string list \<Rightarrow> string" where
  "joinPath [] = []"
| "joinPath (e # es) =
     (if e = [] \<or> e = ''.'' then joinPath es
      else (let r = joinPath es in if r = [] then e else e @ ''/'' @ r))"

fun prefixesAt :: "string \<Rightarrow> string \<Rightarrow> string list" where
  "prefixesAt acc [] = [acc]"
| "prefixesAt acc (c # cs) =
     (if c = CHR ''/'' \<and> acc \<noteq> [] then acc # prefixesAt (acc @ [c]) cs
      else prefixesAt (acc @ [c]) cs)"

definition mem_info :: "string \<Rightarrow> node \<Rightarrow> FileInfo" where
  "mem_info p n =
     \<lparr>Name = basePath p,
      Size = (case n of NFile c sz t \<Rightarrow> sz | _ \<Rightarrow> 0),
      Mode = (case n of NDir \<Rightarrow> 493 | NFile c sz t \<Rightarrow> 420 | NLink l \<Rightarrow> 511),
      ModTime = (case n of NFile c sz t \<Rightarrow> t | _ \<Rightarrow> 0),
      IsDir = (n = NDir),
      IsSymlink = (case n of NLink l \<Rightarrow> True | _ \<Rightarrow> False),
      IsRegular = (case n of NFile c sz t \<Rightarrow> True | _ \<Rightarrow> False)\<rparr>"

definition mem_isDir :: "string \<Rightarrow> memdisk \<Rightarrow> bool" where
  "mem_isDir p s = (p = ''/'' \<or> p = ''.'' \<or> map_of s p = Some NDir)"

definition mem_set :: "string \<Rightarrow> node \<Rightarrow> memdisk \<Rightarrow> memdisk" where
  "mem_set p n s =
     (if map_of s p = None then s @ [(p, n)]
      else map (\<lambda>(q, m). if q = p then (q, n) else (q, m)) s)"

definition mem_stat :: "string \<Rightarrow> memdisk \<Rightarrow> fserr + FileInfo" where
  "mem_stat p s =
     (if p = ''/'' \<or> p = ''.'' then Inr (mem_info p NDir)
      else case map_of s p of None \<Rightarrow> Inl ErrNotExist | Some n \<Rightarrow> Inr (mem_info p n))"

definition mem_readFile :: "string \<Rightarrow> memdisk \<Rightarrow> fserr + string" where
  "mem_readFile p s =
     (case map_of s p of
        None \<Rightarrow> Inl ErrNotExist
      | Some (NFile c sz t) \<Rightarrow> Inr c
      | Some _ \<Rightarrow> Inl (ErrOther ''not a regular file''))"

definition mem_writeFile :: "string \<Rightarrow> string \<Rightarrow> nat \<Rightarrow> memdisk \<Rightarrow> fserr option \<times> memdisk" where
  "mem_writeFile p data perm s =
     (if \<not> mem_isDir (parentPath p) s then (Some ErrNotExist, s)
      else if mem_isDir p s then (Some (ErrOther ''is a directory''), s)
      else (None, mem_set p (NFile data (int (length data)) 0) s))"

definition mem_mkdirAll :: "string \<Rightarrow> nat \<Rightarrow> memdisk \<Rightarrow> fserr option \<times> memdisk" where
  "mem_mkdirAll p perm s =
     fold (\<lambda>q (e, st).
             if e \<noteq> None then (e, st)
             else if mem_isDir q st then (None, st)
             else if map_of st q \<noteq> None then (Some (ErrOther ''not a directory''), st)
             else (None, st @ [(q, NDir)]))
          (prefixesAt [] p) (None, s)"

definition mem_mkdir :: "string \<Rightarrow> nat \<Rightarrow> memdisk \<Rightarrow> fserr option \<times> memdisk" where
  "mem_mkdir p perm s =
     (if p = ''/'' \<or> p = ''.'' \<or> map_of s p \<noteq> None then (Some ErrExist, s)
      else if mem_isDir (parentPath p) s then (None, s @ [(p, NDir)])
      else (Some ErrNotExist, s))"

definition mem_removeAll :: "string \<Rightarrow> memdisk \<Rightarrow> fserr option \<times> memdisk" where
  "mem_removeAll p s = (None, filter (\<lambda>(q, n). q \<noteq> p \<and> \<not> hasPrefix q (p @ ''/'')) s)"

definition mem_readDir :: "string \<Rightarrow> memdisk \<Rightarrow> fserr + DirEntry list" where
  "mem_readDir p s =
     (if mem_isDir p s
      then Inr (sort_key entryName
                  (map (\<lambda>(q, n). DirEntry (basePath q) (n = NDir))
                       (filter (\<lambda>(q, n). parentPath q = p \<and> q \<noteq> p) s)))
      else Inl ErrNotExist)"

definition mem_walk :: "string \<Rightarrow> memdisk \<Rightarrow> (string \<times> FileInfo option \<times> fserr option) list \<times> fserr option" where
  "mem_walk root s =
     (case map_of s root of
        None \<Rightarrow> ([(root, None, Some ErrNotExist)], None)
      | Some n \<Rightarrow>
          (map (\<lambda>(q, m). (q, Some (mem_info q m), None))
               (filter (\<lambda>(q, m). q = root \<or> hasPrefix q (root @ ''/'')) s), None))"

definition mem_copy :: "string \<Rightarrow> string \<Rightarrow> memdisk \<Rightarrow> fserr option \<times> memdisk" where
  "mem_copy src dst s =
     (case map_of s src of
        None \<Rightarrow> (Some ErrNotExist, s)
      | Some (NFile c sz t) \<Rightarrow>
          (case mem_mkdirAll (parentPath dst) 488 s of
             (Some e, s1) \<Rightarrow> (Some e, s1)
           | (None, s1) \<Rightarrow> (None, mem_set dst (NFile c sz t) s1))
      | Some _ \<Rightarrow> (Some (ErrOther ''not a regular file''), s))"

definition mem_move :: "string \<Rightarrow> string \<Rightarrow> memdisk \<Rightarrow> fserr option \<times> memdisk" where
  "mem_move src dst s =
     (case map_of s src of
        None \<Rightarrow> (Some ErrNotExist, s)
      | Some n \<Rightarrow>
          if \<not> mem_isDir (parentPath dst) s then (Some ErrNotExist, s)
          else (None, mem_set dst n (filter (\<lambda>(q, m). q \<noteq> src) s)))"

definition mem_readlink :: "string \<Rightarrow> memdisk \<Rightarrow> fserr + string" where
  "mem_readlink p s =
     (case map_of s p of
        None \<Rightarrow> Inl ErrNotExist
      | Some (NLink l) \<Rightarrow> Inr l
      | Some _ \<Rightarrow> Inl (ErrOther ''not a symbolic link''))"

definition mem_symlink :: "string \<Rightarrow> string \<Rightarrow> memdisk \<Rightarrow> fserr option \<times> memdisk" where
  "mem_symlink target p s =
     (if map_of s p \<noteq> None then (Some ErrExist, s)
      else if mem_isDir (parentPath p) s then (None, s @ [(p, NLink target)])
      else (Some ErrNotExist, s))"

definition mem_chmod :: "string \<Rightarrow> nat \<Rightarrow> memdisk \<Rightarrow> fserr option \<times> memdisk" where
  "mem_chmod p perm s = (if map_of s p = None then (Some ErrNotExist, s) else (None, s))"

definition mem_rel :: "string \<Rightarrow> string \<Rightarrow> fserr + string" where
  "mem_rel base targ =
     (if targ = base then Inr ''.''
      else if hasPrefix targ (base @ ''/'') then Inr (drop (length base + 1) targ)
      else Inl (ErrOther ''no relative path''))"

definition memfs :: "memdisk FileSystemPort" where
  "memfs =
     \<lparr>ReadFile = mem_readFile, WriteFile = mem_writeFile, CreateDir = mem_mkdirAll,
      CreateDirExclusive = mem_mkdir, RemoveAll = mem_removeAll, Stat = mem_stat,
      Lstat = mem_stat, Walk = mem_walk, ReadDir = mem_readDir, Copy = mem_copy, Move = mem_move,
      Readlink = mem_readlink, Symlink = mem_symlink, Chmod = mem_chmod,
      Join = joinPath, Dir = parentPath, Rel = mem_rel,
      IsNotExist = (\<lambda>e. e = ErrNotExist), IsExist = (\<lambda>e. e = ErrExist),
      IsPermission = (\<lambda>e. e = ErrPermission)\<rparr>"


section \<open>Post-rewrite debounce\<close>

definition debounceTimeout :: int where
  "debounceTimeout = 60 * Second"

text \<open>
  \<open>isDebounceActive(ctx, fs, stampPath, now)\<close>: the port may be \<open>nil\<close> (\<open>None\<close>); the
  result is the flag and the error.
\<close>

definition isDebounceActive :: "'s FileSystemPort option \<Rightarrow> string \<Rightarrow> int \<Rightarrow> 's \<Rightarrow> bool \<times> fserr option" where
  "isDebounceActive fs stampPath now s =
     (case fs of
        None \<Rightarrow> (False, None)
      | Some f \<Rightarrow>
          if trimSpace stampPath = '''' then (False, None)
          else (case ReadFile f stampPath s of
                  Inl err \<Rightarrow> if err = ErrNotExist then (False, None) else (False, Some err)
                | Inr data \<Rightarrow>
                    (let stampValue = trimSpace data
                     in if stampValue = '''' then (False, None)
                        else (case parseInt64 stampValue of
                                None \<Rightarrow> (False, None)
                              | Some ts \<Rightarrow>
                                  (let stampTime = time_Unix ts
                                   in (time_Sub now stampTime < debounceTimeout, None))))))"

text \<open>
  Disks for the stamp file \<open>/r/.git/devback-backup-stamp\<close> with a given content, and the
  stamp \<open>1000\<close> written after a space and before a no-break space (U+00A0, the bytes
  C2 A0) and a line feed.
\<close>

definition stampDisk :: "string \<Rightarrow> memdisk" where
  "stampDisk content =
     [(''/r'', NDir), (''/r/.git'', NDir),
      (''/r/.git/devback-backup-stamp'', NFile content (int (length content)) 0)]"

definition paddedStamp :: string where
  "paddedStamp = CHR 0x20 # ''1000'' @ [CHR 0xC2, CHR 0xA0, CHR 0x0A]"


section \<open>Lock validation\<close>

record LockInfo =
  PID :: int
  StartTime :: int
  RepoPath :: string
  BackupDir :: string
  Hostname :: string
  ProcessStartTicks :: int
  ProcessStartID :: string

datatype GOOS = Linux | Darwin | Windows | OtherOS

text \<open>
  What the lock adapter asks of the operating system: the value of \<open>runtime.GOOS\<close>, the
  content of \<open>/proc/<pid>/stat\<close> (\<open>None\<close> when it cannot be read), the start time in
  nanoseconds that \<open>getProcessStartTimeDarwin\<close> and \<open>getProcessStartTimeWindows\<close> find
  (\<open>None\<close> when they return \<open>false\<close>), \<open>os.Hostname()\<close> (\<open>None\<close> on error), whether the
  probe of \<open>isProcessRunning\<close> finds the process, the clock, and the record that
  \<open>readLockInfo\<close> parses from a lock file (\<open>None\<close> when it returns an error).
\<close>

record LockEnv =
  goos :: GOOS
  procStat :: "int \<Rightarrow> string option"
  darwinStart :: "int \<Rightarrow> int option"
  windowsStart :: "int \<Rightarrow> int option"
  osHostname :: "string option"
  probeAlive :: "int \<Rightarrow> bool"
  clockNow :: int
  readLockInfo :: "string \<Rightarrow> LockInfo option"

text \<open>
  \<open>strings.Fields\<close>: the maximal runs of runes that are not white space. The string is
  read byte by byte: a white-space rune is skipped as a whole, and a byte inside another
  rune never starts the encoding of a white-space rune.
\<close>

function splitSpace :: "string \<Rightarrow> string list" where
  "splitSpace s =
     (if s = [] then [[]]
      else if leadingSpace s \<noteq> 0 then [] # splitSpace (drop (leadingSpace s) s)
      else (case splitSpace (tl s) of [] \<Rightarrow> [[hd s]] | w # ws \<Rightarrow> (hd s # w) # ws))"
  by pat_completeness auto
termination
  by (relation "measure length") auto

declare splitSpace.simps [simp del]

definition Fields :: "string \<Rightarrow> string list" where
  "Fields s = filter (\<lambda>w. w \<noteq> []) (splitSpace s)"

definition isProcessRunning :: "LockEnv \<Rightarrow> int \<Rightarrow> bool" where
  "isProcessRunning env pid = (if pid \<le> 0 then False else probeAlive env pid)"

definition getProcessStartTicks :: "LockEnv \<Rightarrow> int \<Rightarrow> int option" where
  "getProcessStartTicks env pid =
     (if pid \<le> 0 then None
      else if goos env \<noteq> Linux then None
      else (case procStat env pid of
              None \<Rightarrow> None
            | Some data \<Rightarrow>
                (let parts = Fields data
                 in if length parts < 22 then None else parseInt64 (parts ! 21))))"

definition getProcessStartID :: "LockEnv \<Rightarrow> int \<Rightarrow> string option" where
  "getProcessStartID env pid =
     (if pid \<le> 0 then None
      else (case goos env of
              Linux \<Rightarrow>
                (case getProcessStartTicks env pid of
                   Some ticks \<Rightarrow> Some (''ticks:'' @ decimalInt ticks)
                 | None \<Rightarrow> None)
            | Darwin \<Rightarrow>
                (case darwinStart env pid of
                   None \<Rightarrow> None
                 | Some startTime \<Rightarrow> Some (''lstart:'' @ decimalInt startTime))
            | Windows \<Rightarrow>
                (case windowsStart env pid of
                   None \<Rightarrow> None
                 | Some startTime \<Rightarrow> Some (''ctime:'' @ decimalInt startTime))
            | OtherOS \<Rightarrow> None))"

text \<open>\<open>validateLockFile(lockPath, maxAge)\<close>: \<open>True\<close> when the lock is held.\<close>

definition validateLockFile :: "LockEnv \<Rightarrow> string \<Rightarrow> int \<Rightarrow> bool" where
  "validateLockFile env lockPath maxAge =
     (case readLockInfo env lockPath of
        None \<Rightarrow> False
      | Some info \<Rightarrow>
          if maxAge < time_Sub (clockNow env) (StartTime info) then False
          else if Hostname info \<noteq> '''' \<and>
                  (case osHostname env of None \<Rightarrow> False | Some hostname \<Rightarrow> hostname \<noteq> Hostname info)
          then True
          else (case (if ProcessStartID info \<noteq> '''' then getProcessStartID env (PID info) else None) of
                  Some ident \<Rightarrow> ident = ProcessStartID info
                | None \<Rightarrow>
                    (case (if ProcessStartTicks info \<noteq> 0 then getProcessStartTicks env (PID info) else None) of
                       Some ticks \<Rightarrow> ticks = ProcessStartTicks info
                     | None \<Rightarrow> isProcessRunning env (PID info))))"

text \<open>
  Sample environments: a Linux host \<open>alpha\<close> at clock 1000 s on which process 4242 runs
  with start ticks 777 (field 22 of its stat line); the same host with \<open>/proc\<close> unreadable;
  and a lock record of process 4242 taken at 900 s with start id \<open>ticks:555\<close>.
\<close>

definition statLine :: string where
  "statLine = ''4242 (devback) S 1 4242 4242 0 -1 4194304 100 0 0 0 1 1 0 0 20 0 1 0 777 1000 10 18446744073709551615''"

definition sampleRecord :: "string \<Rightarrow> string \<Rightarrow> LockInfo" where
  "sampleRecord host ident =
     \<lparr>PID = 4242, StartTime = 900 * Second, RepoPath = ''/r'', BackupDir = ''/b'',
      Hostname = host, ProcessStartTicks = 0, ProcessStartID = ident\<rparr>"

definition sampleEnv :: "bool \<Rightarrow> LockInfo \<Rightarrow> LockEnv" where
  "sampleEnv procReadable info =
     \<lparr>goos = Linux,
      procStat = (\<lambda>pid. if procReadable \<and> pid = 4242 then Some statLine else None),
      darwinStart = (\<lambda>pid. None), windowsStart = (\<lambda>pid. None),
      osHostname = Some ''alpha'',
      probeAlive = (\<lambda>pid. pid = 4242),
      clockNow = 1000 * Second,
      readLockInfo = (\<lambda>p. if p = ''/b/k/.backup.lock/info'' then Some info else None)\<rparr>"


section \<open>Exclude patterns\<close>

definition backslash :: char where
  "backslash = CHR 0x5C"

text \<open>\<open>path.Base\<close> of Go's \<open>path\<close> package.\<close>

definition path_Base :: "string \<Rightarrow> string" where
  "path_Base p =
     (if p = [] then ''.''
      else (let q = rev (dropWhile (\<lambda>c. c = CHR ''/'') (rev p));
                b = rev (takeWhile (\<lambda>c. c \<noteq> CHR ''/'') (rev q))
            in if b = [] then ''/'' else b))"

text \<open>\<open>strings.ContainsAny(pattern, "*?[")\<close>.\<close>

definition hasMeta :: "string \<Rightarrow> bool" where
  "hasMeta pattern = (\<exists>c \<in> set pattern. c = CHR ''*'' \<or> c = CHR ''?'' \<or> c = CHR ''['')"

text \<open>
  \<open>shouldSkip(p, excludes)\<close>. \<open>path.Match\<close> belongs to Go's standard library: its
  boolean result is the parameter \<open>pathMatch pattern name\<close> (the code drops its error).
  The loop over \<open>excludes\<close> works on the path with every backslash replaced by a slash.
\<close>

fun shouldSkipLoop :: "(string \<Rightarrow> string \<Rightarrow> bool) \<Rightarrow> string \<Rightarrow> string list \<Rightarrow> bool \<times> string" where
  "shouldSkipLoop pathMatch normalizedPath [] = (False, '''')"
| "shouldSkipLoop pathMatch normalizedPath (ex # excludes) =
     (let pattern = replaceChar backslash CHR ''/'' ex;
          hasSlash = (CHR ''/'' \<in> set pattern)
      in if hasMeta pattern
         then (if hasSlash
               then (if pathMatch pattern normalizedPath then (True, ex)
                     else shouldSkipLoop pathMatch normalizedPath excludes)
               else (if pathMatch pattern (path_Base normalizedPath) then (True, ex)
                     else shouldSkipLoop pathMatch normalizedPath excludes))
         else (if normalizedPath = pattern \<or> hasPrefix normalizedPath (pattern @ ''/'')
               then (True, ex)
               else shouldSkipLoop pathMatch normalizedPath excludes))"

definition shouldSkip :: "(string \<Rightarrow> string \<Rightarrow> bool) \<Rightarrow> string \<Rightarrow> string list \<Rightarrow> bool \<times> string" where
  "shouldSkip pathMatch p excludes =
     shouldSkipLoop pathMatch (replaceChar backslash CHR ''/'' p) excludes"

text \<open>The lines of \<open>.devbackignore\<close> that \<open>readDevbackIgnore\<close> keeps, and the function.\<close>

definition ignoreLines :: "string \<Rightarrow> string list" where
  "ignoreLines data =
     map (\<lambda>line. trimSuffix line ''/'')
       (filter (\<lambda>line. line \<noteq> '''' \<and> \<not> hasPrefix line ''#'')
          (map (\<lambda>line. trimSpace (filter (\<lambda>c. c \<noteq> CHR 0x0D) line))
               (splitChar CHR 0x0A data)))"

definition readDevbackIgnore :: "'s FileSystemPort \<Rightarrow> string \<Rightarrow> 's \<Rightarrow> fserr + string list" where
  "readDevbackIgnore fs repoRoot s =
     (case ReadFile fs (Join fs [repoRoot, ''.devbackignore'']) s of
        Inl err \<Rightarrow> if IsNotExist fs err then Inr [] else Inl err
      | Inr data \<Rightarrow> Inr (ignoreLines data))"

text \<open>
  The rule of Phase D as the specification words it, on the path and the pattern as
  given: a pattern with a glob meta-character is shell-matched against the full path when
  it contains a slash and against the base name otherwise; a literal pattern matches the
  path itself and every path below it.
\<close>

definition specPhaseD_matches :: "(string \<Rightarrow> string \<Rightarrow> bool) \<Rightarrow> string \<Rightarrow> string \<Rightarrow> bool" where
  "specPhaseD_matches pathMatch pattern p =
     (if hasMeta pattern
      then (if CHR ''/'' \<in> set pattern then pathMatch pattern p else pathMatch pattern (path_Base p))
      else (p = pattern \<or> hasPrefix p (pattern @ ''/'')))"

text \<open>
  Shell-style matching for patterns made of literal characters, \<open>*\<close> and \<open>?\<close> (neither
  crosses a slash), as \<open>path.Match\<close> does on such patterns: the matcher on which the
  model is run on concrete paths.
\<close>

fun globMatch :: "string \<Rightarrow> string \<Rightarrow> bool" where
  "globMatch [] name = (name = [])"
| "globMatch (c # cs) name =
     (if c = CHR ''*''
      then (globMatch cs name \<or>
            (case name of [] \<Rightarrow> False | x # xs \<Rightarrow> x \<noteq> CHR ''/'' \<and> globMatch (c # cs) xs))
      else (case name of
              [] \<Rightarrow> False
            | x # xs \<Rightarrow> (if c = CHR ''?'' then x \<noteq> CHR ''/'' else x = c) \<and> globMatch cs xs))"


section \<open>Rotation\<close>

record Config =
  BackupDir :: string
  Verbose :: bool
  DryRun :: bool
  KeepCount :: int
  KeepDays :: int
  MaxTotalGBPerRepo :: int
  SizeMarginMB :: int
  RepoKeyStyle :: string
  AutoRemoteMerge :: bool
  RemoteHashLen :: int
  NoSize :: bool

record snapshot =
  DateDir :: string
  TimeDir :: string
  Done :: string

definition allDigits :: "string \<Rightarrow> bool" where
  "allDigits s = list_all isDigit s"

definition matchDateDir :: "string \<Rightarrow> bool" where
  "matchDateDir name =
     (length name = 10 \<and> name ! 4 = CHR ''-'' \<and> name ! 7 = CHR ''-''
      \<and> list_all (\<lambda>idx. isDigit (name ! idx)) [0, 1, 2, 3, 5, 6, 8, 9])"

definition matchTimeDir :: "string \<Rightarrow> bool" where
  "matchTimeDir name =
     (let parts = splitChar CHR ''-'' name
      in if length parts = 1 then length name = 6 \<and> allDigits name
         else length (hd parts) = 6 \<and> allDigits (hd parts)
              \<and> list_all (\<lambda>part. part \<noteq> '''' \<and> allDigits part) (tl parts))"

text \<open>
  \<open>listSnapshots\<close>: the time directories with a \<open>.done\<close> file, sorted by \<open>TimeDir\<close>.
  \<open>sort.Slice\<close> is not stable; the model sorts stably, which is the same list when the
  paths differ.
\<close>

definition timeDirSnapshots :: "'s FileSystemPort \<Rightarrow> string \<Rightarrow> DirEntry list \<Rightarrow> 's \<Rightarrow> snapshot list" where
  "timeDirSnapshots fs dd timeDirs s =
     concat (map (\<lambda>t.
        if \<not> entryIsDir t then []
        else if \<not> matchTimeDir (entryName t) then []
        else (let td = Join fs [dd, entryName t];
                  donePath = Join fs [td, ''.done'']
              in case Stat fs donePath s of
                   Inl err \<Rightarrow> []
                 | Inr info \<Rightarrow> [\<lparr>DateDir = dd, TimeDir = td, Done = donePath\<rparr>])) timeDirs)"

definition dateDirSnapshots :: "'s FileSystemPort \<Rightarrow> string \<Rightarrow> DirEntry list \<Rightarrow> 's \<Rightarrow> snapshot list" where
  "dateDirSnapshots fs repoDir dateDirs s =
     concat (map (\<lambda>d.
        if \<not> entryIsDir d then []
        else if \<not> matchDateDir (entryName d) then []
        else (let dd = Join fs [repoDir, entryName d]
              in case ReadDir fs dd s of
                   Inl err \<Rightarrow> []
                 | Inr timeDirs \<Rightarrow> timeDirSnapshots fs dd timeDirs s)) dateDirs)"

definition listSnapshots :: "'s FileSystemPort \<Rightarrow> string \<Rightarrow> 's \<Rightarrow> fserr + snapshot list" where
  "listSnapshots fs repoDir s =
     (case ReadDir fs repoDir s of
        Inl err \<Rightarrow> Inl err
      | Inr dateDirs \<Rightarrow> Inr (sort_key TimeDir (dateDirSnapshots fs repoDir dateDirs s)))"

text \<open>\<open>dirSizeKB\<close>: the sizes of the regular files that the walk reports without error,
  summed in \<open>int64\<close>, then \<open>(total + 1023) / 1024\<close>; with the result of the walk.\<close>

definition walkTotal :: "(string \<times> FileInfo option \<times> fserr option) list \<Rightarrow> int" where
  "walkTotal entries =
     foldl (\<lambda>total (path, info, err).
              if err \<noteq> None then total
              else (case info of
                      None \<Rightarrow> total
                    | Some i \<Rightarrow> if IsRegular i then add64 total (Size i) else total))
           0 entries"

definition dirSizeKB :: "'s FileSystemPort \<Rightarrow> string \<Rightarrow> 's \<Rightarrow> int \<times> fserr option" where
  "dirSizeKB fs root s =
     (let (entries, walkErr) = Walk fs root s
      in (quot64 (add64 (walkTotal entries) 1023) 1024, walkErr))"

text \<open>\<open>removeSnapshot\<close>: the errors of both removals are dropped.\<close>

definition removeSnapshot :: "'s FileSystemPort \<Rightarrow> snapshot \<Rightarrow> 's \<Rightarrow> 's" where
  "removeSnapshot fs sn s =
     (let s1 = snd (RemoveAll fs (TimeDir sn) s)
      in case ReadDir fs (DateDir sn) s1 of
           Inr entries \<Rightarrow> if entries = [] then snd (RemoveAll fs (DateDir sn) s1) else s1
         | Inl err \<Rightarrow> s1)"

text \<open>
  The three rules. Each takes the list of snapshots and the parallel list \<open>alive\<close>, and
  returns the new \<open>alive\<close> with the new disk. The loops run over both lists together.
\<close>

fun keepDaysLoop :: "'s FileSystemPort \<Rightarrow> bool \<Rightarrow> int \<Rightarrow> int \<Rightarrow> snapshot list \<Rightarrow> bool list \<Rightarrow> 's \<Rightarrow> bool list \<times> 's" where
  "keepDaysLoop fs dryRun now limit (sn # snaps) (a # alive) s =
     (if \<not> a then (let (r, s') = keepDaysLoop fs dryRun now limit snaps alive s in (a # r, s'))
      else (case Stat fs (Done sn) s of
              Inl err \<Rightarrow> (let (r, s') = keepDaysLoop fs dryRun now limit snaps alive s in (a # r, s'))
            | Inr fi \<Rightarrow>
                if limit < time_Sub now (ModTime fi)
                then (let s1 = (if dryRun then s else removeSnapshot fs sn s);
                          (r, s') = keepDaysLoop fs dryRun now limit snaps alive s1
                      in (False # r, s'))
                else (let (r, s') = keepDaysLoop fs dryRun now limit snaps alive s in (a # r, s'))))"
| "keepDaysLoop fs dryRun now limit snaps alive s = (alive, s)"

definition applyKeepDays :: "'s FileSystemPort \<Rightarrow> Config \<Rightarrow> bool \<Rightarrow> snapshot list \<Rightarrow> bool list \<Rightarrow> int \<Rightarrow> 's \<Rightarrow> bool list \<times> 's" where
  "applyKeepDays fs cfg dryRun snaps alive now s =
     (if KeepDays cfg \<le> 0 then (alive, s)
      else (let limit = mul64 (mul64 (KeepDays cfg) 24) Hour
            in keepDaysLoop fs dryRun now limit snaps alive s))"

fun keepCountLoop :: "'s FileSystemPort \<Rightarrow> bool \<Rightarrow> int \<Rightarrow> snapshot list \<Rightarrow> bool list \<Rightarrow> 's \<Rightarrow> bool list \<times> 's" where
  "keepCountLoop fs dryRun toRemove (sn # snaps) (a # alive) s =
     (if \<not> 0 < toRemove then (a # alive, s)
      else if \<not> a then (let (r, s') = keepCountLoop fs dryRun toRemove snaps alive s in (a # r, s'))
      else (let s1 = (if dryRun then s else removeSnapshot fs sn s);
                (r, s') = keepCountLoop fs dryRun (toRemove - 1) snaps alive s1
            in (False # r, s')))"
| "keepCountLoop fs dryRun toRemove snaps alive s = (alive, s)"

definition applyKeepCount :: "'s FileSystemPort \<Rightarrow> Config \<Rightarrow> bool \<Rightarrow> snapshot list \<Rightarrow> bool list \<Rightarrow> 's \<Rightarrow> bool list \<times> 's" where
  "applyKeepCount fs cfg dryRun snaps alive s =
     (if KeepCount cfg \<le> 0 then (alive, s)
      else (let live = int (length (filter (\<lambda>ok. ok) alive))
            in if live \<le> KeepCount cfg then (alive, s)
               else keepCountLoop fs dryRun (live - KeepCount cfg) snaps alive s))"

definition kbLimitOf :: "Config \<Rightarrow> int" where
  "kbLimitOf cfg =
     add64 (mul64 (mul64 (wrap64 (MaxTotalGBPerRepo cfg)) 1024) 1024)
           (mul64 (wrap64 (SizeMarginMB cfg)) 1024)"

fun measureSizes :: "'s FileSystemPort \<Rightarrow> snapshot list \<Rightarrow> bool list \<Rightarrow> 's \<Rightarrow> int list" where
  "measureSizes fs (sn # snaps) (a # alive) s =
     (if \<not> a then 0 else fst (dirSizeKB fs (TimeDir sn) s)) # measureSizes fs snaps alive s"
| "measureSizes fs snaps alive s = []"

fun sumLiving :: "bool list \<Rightarrow> int list \<Rightarrow> int \<Rightarrow> int" where
  "sumLiving (a # alive) (kb # sizes) totalKB =
     sumLiving alive sizes (if \<not> a then totalKB else add64 totalKB kb)"
| "sumLiving alive sizes totalKB = totalKB"

fun sizeLoop :: "'s FileSystemPort \<Rightarrow> bool \<Rightarrow> int \<Rightarrow> int \<Rightarrow> snapshot list \<Rightarrow> bool list \<Rightarrow> int list \<Rightarrow> 's \<Rightarrow> bool list \<times> 's" where
  "sizeLoop fs dryRun kbLimit totalKB (sn # snaps) (a # alive) (kb # sizes) s =
     (if \<not> kbLimit < totalKB then (a # alive, s)
      else if \<not> a
      then (let (r, s') = sizeLoop fs dryRun kbLimit totalKB snaps alive sizes s in (a # r, s'))
      else (let s1 = (if dryRun then s else removeSnapshot fs sn s);
                (r, s') = sizeLoop fs dryRun kbLimit (sub64 totalKB kb) snaps alive sizes s1
            in (False # r, s')))"
| "sizeLoop fs dryRun kbLimit totalKB snaps alive sizes s = (alive, s)"

definition applySizeLimit :: "'s FileSystemPort \<Rightarrow> Config \<Rightarrow> bool \<Rightarrow> snapshot list \<Rightarrow> bool list \<Rightarrow> 's \<Rightarrow> bool list \<times> 's" where
  "applySizeLimit fs cfg dryRun snaps alive s =
     (if MaxTotalGBPerRepo cfg \<le> 0 \<or> NoSize cfg then (alive, s)
      else (let kbLimit = kbLimitOf cfg;
                sizes = measureSizes fs snaps alive s;
                totalKB = sumLiving alive sizes 0
            in sizeLoop fs dryRun kbLimit totalKB snaps alive sizes s))"

text \<open>
  \<open>rotateRepo\<close>, with \<open>time.Now()\<close> as the parameter \<open>now\<close>. \<open>rotateSnaps\<close> is its part
  after the listing and returns the final \<open>alive\<close> with the disk; \<open>rotateRepo\<close> returns
  the disk. Logging, and the summary of the verbose mode (which only lists and measures),
  are left out.
\<close>

definition rotateSnaps :: "'s FileSystemPort \<Rightarrow> Config \<Rightarrow> bool \<Rightarrow> int \<Rightarrow> snapshot list \<Rightarrow> 's \<Rightarrow> bool list \<times> 's" where
  "rotateSnaps fs cfg dryRun now snaps s =
     (let alive = replicate (length snaps) True;
          (alive1, s1) = applyKeepDays fs cfg dryRun snaps alive now s;
          (alive2, s2) = applyKeepCount fs cfg dryRun snaps alive1 s1
      in applySizeLimit fs cfg dryRun snaps alive2 s2)"

definition rotateRepo :: "'s FileSystemPort \<Rightarrow> string \<Rightarrow> Config \<Rightarrow> bool \<Rightarrow> int \<Rightarrow> 's \<Rightarrow> 's" where
  "rotateRepo fs repoDir cfg dryRun now s =
     (case listSnapshots fs repoDir s of
        Inl err \<Rightarrow> s
      | Inr snaps \<Rightarrow> snd (rotateSnaps fs cfg dryRun now snaps s))"

text \<open>
  A sample disk: the repository directory \<open>/b/k\<close> with \<open>n\<close> finished snapshots on two
  days, each holding one file of the given size, and sample configurations.
\<close>

definition snapDisk :: "string \<Rightarrow> string \<Rightarrow> int \<Rightarrow> int \<Rightarrow> memdisk" where
  "snapDisk dateDir timeDir fileSize doneTime =
     [(dateDir @ ''/'' @ timeDir, NDir),
      (dateDir @ ''/'' @ timeDir @ ''/.done'', NFile '''' 0 doneTime),
      (dateDir @ ''/'' @ timeDir @ ''/data.bin'', NFile '''' fileSize 0)]"

definition sampleDisk :: "int \<Rightarrow> memdisk" where
  "sampleDisk fileSize =
     [(''/b'', NDir), (''/b/k'', NDir), (''/b/k/2024-01-01'', NDir), (''/b/k/2024-01-02'', NDir)]
     @ snapDisk ''/b/k/2024-01-01'' ''090000-000000001'' fileSize (100 * Second)
     @ snapDisk ''/b/k/2024-01-01'' ''100000-000000001'' fileSize (200 * Second)
     @ snapDisk ''/b/k/2024-01-02'' ''080000-000000001'' fileSize (300 * Second)"

definition sampleConfig :: "int \<Rightarrow> int \<Rightarrow> int \<Rightarrow> int \<Rightarrow> bool \<Rightarrow> Config" where
  "sampleConfig keepDays keepCount maxGB marginMB noSize =
     \<lparr>BackupDir = ''/b'', Verbose = False, DryRun = False, KeepCount = keepCount,
      KeepDays = keepDays, MaxTotalGBPerRepo = maxGB, SizeMarginMB = marginMB,
      RepoKeyStyle = ''auto'', AutoRemoteMerge = False, RemoteHashLen = 8, NoSize = noSize\<rparr>"

definition sampleSnapshot :: "string \<Rightarrow> string \<Rightarrow> snapshot" where
  "sampleSnapshot dateDir timeDir =
     \<lparr>DateDir = dateDir, TimeDir = dateDir @ ''/'' @ timeDir,
      Done = dateDir @ ''/'' @ timeDir @ ''/.done''\<rparr>"

definition sampleSnaps :: "snapshot list" where
  "sampleSnaps =
     [sampleSnapshot ''/b/k/2024-01-01'' ''090000-000000001'',
      sampleSnapshot ''/b/k/2024-01-01'' ''100000-000000001'',
      sampleSnapshot ''/b/k/2024-01-02'' ''080000-000000001'']"

text \<open>
  "The age rule did not remove any snapshot" and "the size rule did not remove any
  snapshot", for a rotation that starts with every snapshot alive.
\<close>

definition ageRuleIdle :: "'s FileSystemPort \<Rightarrow> Config \<Rightarrow> bool \<Rightarrow> int \<Rightarrow> snapshot list \<Rightarrow> 's \<Rightarrow> bool" where
  "ageRuleIdle fs cfg dryRun now snaps s =
     (fst (applyKeepDays fs cfg dryRun snaps (replicate (length snaps) True) now s)
        = replicate (length snaps) True)"

definition sizeRuleIdle :: "'s FileSystemPort \<Rightarrow> Config \<Rightarrow> bool \<Rightarrow> snapshot list \<Rightarrow> 's \<Rightarrow> bool" where
  "sizeRuleIdle fs cfg dryRun snaps s =
     (case applyKeepCount fs cfg dryRun snaps (replicate (length snaps) True) s of
        (alive2, s2) \<Rightarrow> fst (applySizeLimit fs cfg dryRun snaps alive2 s2) = alive2)"

text \<open>
  A port that behaves as a given one and also records, in order, the paths handed to
  \<open>RemoveAll\<close>.
\<close>

definition recording :: "'s FileSystemPort \<Rightarrow> ('s \<times> string list) FileSystemPort" where
  "recording fs =
     \<lparr>ReadFile = (\<lambda>p (s, removed). ReadFile fs p s),
      WriteFile = (\<lambda>p d m (s, removed). (fst (WriteFile fs p d m s), snd (WriteFile fs p d m s), removed)),
      CreateDir = (\<lambda>p m (s, removed). (fst (CreateDir fs p m s), snd (CreateDir fs p m s), removed)),
      CreateDirExclusive = (\<lambda>p m (s, removed).
         (fst (CreateDirExclusive fs p m s), snd (CreateDirExclusive fs p m s), removed)),
      RemoveAll = (\<lambda>p (s, removed). (fst (RemoveAll fs p s), snd (RemoveAll fs p s), removed @ [p])),
      Stat = (\<lambda>p (s, removed). Stat fs p s),
      Lstat = (\<lambda>p (s, removed). Lstat fs p s),
      Walk = (\<lambda>p (s, removed). Walk fs p s),
      ReadDir = (\<lambda>p (s, removed). ReadDir fs p s),
      Copy = (\<lambda>a b (s, removed). (fst (Copy fs a b s), snd (Copy fs a b s), removed)),
      Move = (\<lambda>a b (s, removed). (fst (Move fs a b s), snd (Move fs a b s), removed)),
      Readlink = (\<lambda>p (s, removed). Readlink fs p s),
      Symlink = (\<lambda>a b (s, removed). (fst (Symlink fs a b s), snd (Symlink fs a b s), removed)),
      Chmod = (\<lambda>p m (s, removed). (fst (Chmod fs p m s), snd (Chmod fs p m s), removed)),
      Join = Join fs, Dir = Dir fs, Rel = Rel fs,
      IsNotExist = IsNotExist fs, IsExist = IsExist fs, IsPermission = IsPermission fs\<rparr>"

text \<open>
  For the statements about the size rule: the sizes of the regular files of a walk, and
  the exact sum of the sizes of the living snapshots.
\<close>

definition regularSizes :: "(string \<times> FileInfo option \<times> fserr option) list \<Rightarrow> int list" where
  "regularSizes entries =
     concat (map (\<lambda>(path, info, err).
        if err \<noteq> None then []
        else (case info of None \<Rightarrow> [] | Some i \<Rightarrow> if IsRegular i then [Size i] else [])) entries)"

fun livingKB :: "bool list \<Rightarrow> int list \<Rightarrow> int" where
  "livingKB (a # alive) (kb # sizes) = (if a then kb else 0) + livingKB alive sizes"
| "livingKB alive sizes = 0"

fun livingSnaps :: "snapshot list \<Rightarrow> bool list \<Rightarrow> snapshot list" where
  "livingSnaps (sn # snaps) (a # alive) = (if a then [sn] else []) @ livingSnaps snaps alive"
| "livingSnaps snaps alive = []"


section \<open>Snapshot reservation\<close>

text \<open>
  The fields of \<open>time.Now()\<close> that the backup reads: the instant in nanoseconds since
  the Unix epoch, and the local calendar date and clock time.
\<close>

record Time =
  unixNano :: int
  year :: nat
  month :: nat
  day :: nat
  hour :: nat
  minute :: nat
  second :: nat
  nanosecond :: nat

text \<open>\<open>now.Format("2006-01-02")\<close> and \<open>formatTimeDir\<close>.\<close>

definition formatDate :: "Time \<Rightarrow> string" where
  "formatDate now = padZero 4 (year now) @ ''-'' @ padZero 2 (month now) @ ''-'' @ padZero 2 (day now)"

definition formatTimeDir :: "Time \<Rightarrow> string" where
  "formatTimeDir now =
     padZero 2 (hour now) @ padZero 2 (minute now) @ padZero 2 (second now)
     @ ''-'' @ padZero 9 (nanosecond now)"

text \<open>The name of the time directory in round \<open>i\<close> of the loop.\<close>

definition timeDirName :: "string \<Rightarrow> nat \<Rightarrow> string" where
  "timeDirName baseTimeDir i = (if 0 < i then baseTimeDir @ ''-'' @ padZero 2 i else baseTimeDir)"

definition errNoUniqueDir :: fserr where
  "errNoUniqueDir = ErrOther ''failed to create unique snapshot directory''"

text \<open>The loop of \<open>createUniqueSnapshotDir\<close>, from round \<open>i\<close> on.\<close>

function uniqueDirLoop :: "'s FileSystemPort \<Rightarrow> string \<Rightarrow> string \<Rightarrow> string \<Rightarrow> nat \<Rightarrow> 's \<Rightarrow> (fserr + string) \<times> 's" where
  "uniqueDirLoop fs repoDir dateDir baseTimeDir i s =
     (if \<not> i < 100 then (Inl errNoUniqueDir, s)
      else (let timeDir = timeDirName baseTimeDir i;
                targetPath = Join fs [repoDir, dateDir, timeDir]
            in case CreateDirExclusive fs targetPath 493 s of
                 (Some err, s1) \<Rightarrow>
                   if IsExist fs err then uniqueDirLoop fs repoDir dateDir baseTimeDir (i + 1) s1
                   else (Inl err, s1)
               | (None, s1) \<Rightarrow>
                   (let reservePath = Join fs [targetPath, ''.reserve'']
                    in case CreateDirExclusive fs reservePath 448 s1 of
                         (Some err, s2) \<Rightarrow>
                           (let s3 = snd (RemoveAll fs targetPath s2)
                            in if IsExist fs err
                               then uniqueDirLoop fs repoDir dateDir baseTimeDir (i + 1) s3
                               else (Inl err, s3))
                       | (None, s2) \<Rightarrow> (Inr targetPath, s2))))"
  by pat_completeness auto
termination
  by (relation "measure (\<lambda>(fs, repoDir, dateDir, baseTimeDir, i, s). 100 - i)") auto

declare uniqueDirLoop.simps [simp del]

definition createUniqueSnapshotDir :: "'s FileSystemPort \<Rightarrow> string \<Rightarrow> string \<Rightarrow> Time \<Rightarrow> 's \<Rightarrow> (fserr + string) \<times> 's" where
  "createUniqueSnapshotDir fs repoDir dateDir now s =
     (let baseTimeDir = formatTimeDir now
      in case CreateDir fs (Join fs [repoDir, dateDir]) 493 s of
           (Some err, s1) \<Rightarrow> (Inl err, s1)
         | (None, s1) \<Rightarrow> uniqueDirLoop fs repoDir dateDir baseTimeDir 0 s1)"

text \<open>
  The reservation as the specification describes it: the candidate names are the base
  name, then the base name with the suffixes \<open>-01\<close> to \<open>-99\<close>; the candidates are tried
  in order. A candidate directory that exists already is passed over; a \<open>.reserve\<close>
  that exists already has the candidate removed and passed over; any other error ends
  the reservation (the candidate removed when the error comes from \<open>.reserve\<close>); the
  first candidate for which both creations succeed is returned; when the candidates are
  used up the reservation fails.
\<close>

definition twoDigits :: "nat \<Rightarrow> string" where
  "twoDigits i = [digitChar (i div 10), digitChar (i mod 10)]"

definition candidateNames :: "string \<Rightarrow> string list" where
  "candidateNames baseTimeDir =
     baseTimeDir # map (\<lambda>i. baseTimeDir @ ''-'' @ twoDigits i) [1..<100]"

fun reserveFirst :: "'s FileSystemPort \<Rightarrow> string list \<Rightarrow> 's \<Rightarrow> (fserr + string) \<times> 's" where
  "reserveFirst fs [] s = (Inl errNoUniqueDir, s)"
| "reserveFirst fs (candidate # candidates) s =
     (case CreateDirExclusive fs candidate 493 s of
        (Some err, s1) \<Rightarrow> if IsExist fs err then reserveFirst fs candidates s1 else (Inl err, s1)
      | (None, s1) \<Rightarrow>
          (case CreateDirExclusive fs (Join fs [candidate, ''.reserve'']) 448 s1 of
             (Some err, s2) \<Rightarrow>
               if IsExist fs err then reserveFirst fs candidates (snd (RemoveAll fs candidate s2))
               else (Inl err, snd (RemoveAll fs candidate s2))
           | (None, s2) \<Rightarrow> (Inr candidate, s2)))"

text \<open>A sample instant, and a disk on which the base name and the suffix \<open>-01\<close> are
  taken already.\<close>

definition sampleNow :: Time where
  "sampleNow = \<lparr>unixNano = 1704186000 * Second + 42, year = 2024, month = 1, day = 2,
                hour = 9, minute = 0, second = 0, nanosecond = 42\<rparr>"

definition takenDisk :: memdisk where
  "takenDisk =
     [(''/b'', NDir), (''/b/k'', NDir), (''/b/k/2024-01-02'', NDir),
      (''/b/k/2024-01-02/090000-000000042'', NDir),
      (''/b/k/2024-01-02/090000-000000042-01'', NDir)]"


section \<open>The backup flow\<close>

record BackupResult =
  TotalFiles :: int
  CopiedFiles :: int
  SkippedFiles :: int
  SkippedDirs :: int
  PermissionErrs :: "string list"
  OtherErrors :: "string list"
  PartialSuccess :: bool

definition emptyResult :: BackupResult where
  "emptyResult =
     \<lparr>TotalFiles = 0, CopiedFiles = 0, SkippedFiles = 0, SkippedDirs = 0,
      PermissionErrs = [], OtherErrors = [], PartialSuccess = False\<rparr>"

text \<open>The four error categories of the use cases, told apart by identity.\<close>

datatype ucerr = ErrCritical | ErrUsage | ErrLockBusy | ErrInterrupted

text \<open>
  \<open>GitPort\<close>, by the methods the backup and the hooks call. Git is asked about the
  working tree, which the backup does not change: its answers do not depend on the disk
  state of the model.
\<close>

record GitPort =
  RepoRoot :: "fserr + string"
  ConfigGet :: "string \<Rightarrow> string \<Rightarrow> fserr + string"
  ConfigGetWorktree :: "string \<Rightarrow> string \<Rightarrow> fserr + string"
  ConfigGetGlobal :: "string \<Rightarrow> fserr + string"
  GitDir :: "string \<Rightarrow> fserr + string"
  GitCommonDir :: "string \<Rightarrow> fserr + string"
  ListIgnoredUntracked :: "string \<Rightarrow> fserr + string list"

definition errText :: "fserr \<Rightarrow> string" where
  "errText err =
     (case err of
        ErrNotExist \<Rightarrow> ''file does not exist''
      | ErrExist \<Rightarrow> ''file already exists''
      | ErrPermission \<Rightarrow> ''permission denied''
      | ErrOther msg \<Rightarrow> msg)"

text \<open>\<open>recordCopyError\<close>, for an error and a result that are not \<open>nil\<close>.\<close>

definition recordCopyError :: "'s FileSystemPort \<Rightarrow> string \<Rightarrow> fserr \<Rightarrow> BackupResult \<times> string list \<Rightarrow> BackupResult \<times> string list" where
  "recordCopyError fs path err acc =
     (let (result, copyErrors) = acc;
          msg = path @ '': '' @ errText err
      in (result\<lparr>SkippedFiles := SkippedFiles result + 1,
                 PermissionErrs := (if IsPermission fs err then PermissionErrs result @ [msg]
                                    else PermissionErrs result),
                 OtherErrors := (if IsPermission fs err then OtherErrors result
                                 else OtherErrors result @ [msg]),
                 PartialSuccess := True\<rparr>,
          copyErrors @ [msg]))"

definition copyFile :: "'s FileSystemPort \<Rightarrow> string \<Rightarrow> string \<Rightarrow> nat \<Rightarrow> 's \<Rightarrow> fserr option \<times> 's" where
  "copyFile fs src dst mode s =
     (case Copy fs src dst s of
        (Some err, s1) \<Rightarrow> (Some err, s1)
      | (None, s1) \<Rightarrow> (None, if mode \<noteq> 0 then snd (Chmod fs dst (mode mod 512) s1) else s1))"

text \<open>
  Phase A. \<open>copyDirEntry\<close> and the callback of \<open>copyDirRecursive\<close> work on the result,
  the list \<open>copyErrors\<close> and the disk.
\<close>

definition noteError :: "'s FileSystemPort \<Rightarrow> string \<Rightarrow> fserr \<Rightarrow> BackupResult \<times> string list \<times> 's \<Rightarrow> 's \<Rightarrow> BackupResult \<times> string list \<times> 's" where
  "noteError fs path err acc s1 =
     (let (result, copyErrors, s) = acc;
          (result1, copyErrors1) = recordCopyError fs path err (result, copyErrors)
      in (result1, copyErrors1, s1))"

definition copyDirEntry :: "'s FileSystemPort \<Rightarrow> string \<Rightarrow> string \<Rightarrow> FileInfo \<Rightarrow> BackupResult \<times> string list \<times> 's \<Rightarrow> BackupResult \<times> string list \<times> 's" where
  "copyDirEntry fs path target info acc =
     (let (result, copyErrors, s) = acc
      in if IsDir info
         then (case CreateDir fs target (Mode info mod 512) s of
                 (Some err, s1) \<Rightarrow> noteError fs target err acc s1
               | (None, s1) \<Rightarrow> (result, copyErrors, s1))
         else if IsSymlink info
         then (case Readlink fs path s of
                 Inl err \<Rightarrow> noteError fs path err acc s
               | Inr linkTarget \<Rightarrow>
                   (let parentDir = Dir fs target
                    in case CreateDir fs parentDir 493 s of
                         (Some err, s1) \<Rightarrow> noteError fs parentDir err acc s1
                       | (None, s1) \<Rightarrow>
                           (let s2 = snd (RemoveAll fs target s1)
                            in case Symlink fs linkTarget target s2 of
                                 (Some err, s3) \<Rightarrow> noteError fs target err acc s3
                               | (None, s3) \<Rightarrow> (result, copyErrors, s3))))
         else (let parentDir = Dir fs target
               in case CreateDir fs parentDir 493 s of
                    (Some err, s1) \<Rightarrow> noteError fs parentDir err acc s1
                  | (None, s1) \<Rightarrow>
                      (case copyFile fs path target (Mode info) s1 of
                         (Some err, s2) \<Rightarrow> noteError fs path err acc s2
                       | (None, s2) \<Rightarrow>
                           (result\<lparr>CopiedFiles := CopiedFiles result + 1\<rparr>, copyErrors, s2))))"

definition walkStep :: "'s FileSystemPort \<Rightarrow> string \<Rightarrow> string \<Rightarrow> BackupResult \<times> string list \<times> 's \<Rightarrow> string \<times> FileInfo option \<times> fserr option \<Rightarrow> BackupResult \<times> string list \<times> 's" where
  "walkStep fs src dst acc entry =
     (let (path, info, err) = entry
      in case err of
           Some e \<Rightarrow> noteError fs path e acc (snd (snd acc))
         | None \<Rightarrow>
             (case Rel fs src path of
                Inl e \<Rightarrow> noteError fs path e acc (snd (snd acc))
              | Inr rel \<Rightarrow>
                  (let target = Join fs [dst, rel]
                   in case info of
                        None \<Rightarrow> acc
                      | Some i \<Rightarrow> copyDirEntry fs path target i acc)))"

definition copyDirRecursive :: "'s FileSystemPort \<Rightarrow> string \<Rightarrow> string \<Rightarrow> BackupResult \<Rightarrow> 's \<Rightarrow> fserr option \<times> BackupResult \<times> 's" where
  "copyDirRecursive fs src dst result s =
     (let (entries, walkErr) = Walk fs src s;
          (result1, copyErrors, s1) = foldl (walkStep fs src dst) (result, [], s) entries
      in if copyErrors \<noteq> []
         then (Some (ErrOther (''failed to copy '' @ decimalNat (length copyErrors) @ '' item(s)'')),
               result1, s1)
         else (walkErr, result1, s1))"

definition cleanupSnapshotWorktrees :: "'s FileSystemPort \<Rightarrow> string \<Rightarrow> 's \<Rightarrow> fserr option \<times> 's" where
  "cleanupSnapshotWorktrees fs dstGit s =
     (let worktreesDir = Join fs [dstGit, ''worktrees'']
      in case Stat fs worktreesDir s of
           Inl err \<Rightarrow> if IsNotExist fs err then (None, s) else (Some (ErrOther ''stat worktrees dir''), s)
         | Inr info \<Rightarrow>
             (case RemoveAll fs worktreesDir s of
                (Some err, s1) \<Rightarrow> (Some (ErrOther ''remove worktrees dir''), s1)
              | (None, s1) \<Rightarrow> (None, s1)))"

definition isAbsPath :: "string \<Rightarrow> bool" where
  "isAbsPath path =
     (path \<noteq> '''' \<and>
      (hasPrefix path ''/'' \<or> hasPrefix path [backslash] \<or> (2 \<le> length path \<and> path ! 1 = CHR '':'')))"

text \<open>
  \<open>resolveSnapshotGitDirs\<close>, with both ports present: the git directory and the common
  directory as paths. The flag \<open>isWorktree\<close> of the source, which the backup flow does
  not read, is left out.
\<close>

record snapshotGitDirs =
  gitDir :: string
  commonDir :: string

definition resolveSnapshotGitDirs :: "'s FileSystemPort \<Rightarrow> GitPort \<Rightarrow> string \<Rightarrow> 's \<Rightarrow> fserr + snapshotGitDirs" where
  "resolveSnapshotGitDirs fs git repoRoot s =
     (case GitDir git repoRoot of
        Inl err \<Rightarrow> Inl (ErrOther ''resolve git dir'')
      | Inr gitDir0 \<Rightarrow>
          (case GitCommonDir git repoRoot of
             Inl err \<Rightarrow> Inl (ErrOther ''resolve git common dir'')
           | Inr commonDir0 \<Rightarrow>
               (let gitDir1 = trimSpace gitDir0;
                    commonDir1 = trimSpace commonDir0
                in if gitDir1 = '''' then Inl (ErrOther ''git dir is empty'')
                   else if commonDir1 = '''' then Inl (ErrOther ''git common dir is empty'')
                   else (let gitPath = (if isAbsPath gitDir1 then gitDir1 else Join fs [repoRoot, gitDir1]);
                             commonPath = (if isAbsPath commonDir1 then commonDir1
                                           else Join fs [repoRoot, commonDir1])
                         in case Stat fs gitPath s of
                              Inl err \<Rightarrow> Inl (ErrOther ''git dir not found'')
                            | Inr info \<Rightarrow>
                                if \<not> IsDir info then Inl (ErrOther ''git dir is not a directory'')
                                else (case Stat fs commonPath s of
                                        Inl err \<Rightarrow> Inl (ErrOther ''git common dir not found'')
                                      | Inr info2 \<Rightarrow>
                                          if \<not> IsDir info2
                                          then Inl (ErrOther ''git common dir is not a directory'')
                                          else Inr \<lparr>gitDir = gitPath, commonDir = commonPath\<rparr>)))))"

text \<open>
  Phase E. The workers of \<open>copySelectedFiles\<close> share the result under a mutex; the model
  is one worker that takes the paths in order.
\<close>

definition copySelectedSymlink :: "'s FileSystemPort \<Rightarrow> string \<Rightarrow> string \<Rightarrow> 's \<Rightarrow> fserr option \<times> 's" where
  "copySelectedSymlink fs src dst s =
     (case CreateDir fs (Dir fs dst) 493 s of
        (Some err, s1) \<Rightarrow> (Some err, s1)
      | (None, s1) \<Rightarrow>
          (case Readlink fs src s1 of
             Inl err \<Rightarrow> (Some err, s1)
           | Inr linkTarget \<Rightarrow>
               (let s2 = snd (RemoveAll fs dst s1)
                in Symlink fs linkTarget dst s2)))"

definition copySelectedPath :: "'s FileSystemPort \<Rightarrow> string \<Rightarrow> string \<Rightarrow> string \<Rightarrow> BackupResult \<Rightarrow> 's \<Rightarrow> fserr option \<times> BackupResult \<times> 's" where
  "copySelectedPath fs srcRoot dstRoot rel result s =
     (let src = Join fs [srcRoot, rel];
          dst = Join fs [dstRoot, rel]
      in case Lstat fs src s of
           Inl err \<Rightarrow> (Some err, result, s)
         | Inr fi \<Rightarrow>
             if IsDir fi
             then (case CreateDir fs dst 493 s of (err, s1) \<Rightarrow> (err, result, s1))
             else if IsSymlink fi
             then (case copySelectedSymlink fs src dst s of (err, s1) \<Rightarrow> (err, result, s1))
             else (case CreateDir fs (Dir fs dst) 493 s of
                     (Some err, s1) \<Rightarrow> (Some err, result, s1)
                   | (None, s1) \<Rightarrow>
                       (case copyFile fs src dst (Mode fi) s1 of
                          (Some err, s2) \<Rightarrow> (Some err, result, s2)
                        | (None, s2) \<Rightarrow>
                            (None, result\<lparr>CopiedFiles := CopiedFiles result + 1\<rparr>, s2))))"

definition selectedStep :: "'s FileSystemPort \<Rightarrow> string \<Rightarrow> string \<Rightarrow> BackupResult \<times> string list \<times> 's \<Rightarrow> string \<Rightarrow> BackupResult \<times> string list \<times> 's" where
  "selectedStep fs srcRoot dstRoot acc rel =
     (let (result, copyErrors, s) = acc
      in case copySelectedPath fs srcRoot dstRoot rel result s of
           (Some err, result1, s1) \<Rightarrow> noteError fs rel err (result1, copyErrors, s1) s1
         | (None, result1, s1) \<Rightarrow> (result1, copyErrors, s1))"

definition copySelectedFiles :: "'s FileSystemPort \<Rightarrow> string list \<Rightarrow> string \<Rightarrow> string \<Rightarrow> BackupResult \<Rightarrow> 's \<Rightarrow> fserr option \<times> BackupResult \<times> 's" where
  "copySelectedFiles fs paths srcRoot dstRoot result s =
     (if paths = [] then (None, result, s)
      else (let (result1, copyErrors, s1) = foldl (selectedStep fs srcRoot dstRoot) (result, [], s) paths
            in if copyErrors \<noteq> []
               then (Some (ErrOther (''failed to copy '' @ decimalNat (length copyErrors) @ '' item(s)'')),
                     result1, s1)
               else (None, result1, s1)))"

text \<open>\<open>copyRepoSnapshot\<close>, for a context that is not cancelled.\<close>

definition copyRepoSnapshot :: "'s FileSystemPort \<Rightarrow> GitPort \<Rightarrow> (string \<Rightarrow> string \<Rightarrow> bool) \<Rightarrow> string \<Rightarrow> string \<Rightarrow> BackupResult \<Rightarrow> 's \<Rightarrow> fserr option \<times> BackupResult \<times> 's" where
  "copyRepoSnapshot fs git pathMatch repoRoot targetPath result s =
     (case resolveSnapshotGitDirs fs git repoRoot s of
        Inl err \<Rightarrow> (Some err, result, s)
      | Inr dirs \<Rightarrow>
          (let srcGit = commonDir dirs;
               dstGit = Join fs [targetPath, ''.git'']
           in case Stat fs srcGit s of
                Inl err \<Rightarrow> (Some (ErrOther ''git common dir not found''), result, s)
              | Inr info \<Rightarrow>
                  (case copyDirRecursive fs srcGit dstGit result s of
                     (Some err, result1, s1) \<Rightarrow> (Some err, result1, s1)
                   | (None, result1, s1) \<Rightarrow>
                       (case cleanupSnapshotWorktrees fs dstGit s1 of
                          (Some err, s2) \<Rightarrow> (Some err, result1, s2)
                        | (None, s2) \<Rightarrow>
                            (let excludes = (case readDevbackIgnore fs repoRoot s2 of
                                               Inl err \<Rightarrow> []
                                             | Inr ex \<Rightarrow> ex)
                             in case ListIgnoredUntracked git repoRoot of
                                  Inl err \<Rightarrow> (Some (ErrOther ''git ls-files''), result1, s2)
                                | Inr allPaths \<Rightarrow>
                                    (let keep = filter (\<lambda>p. \<not> fst (shouldSkip pathMatch p excludes)) allPaths
                                     in copySelectedFiles fs keep repoRoot targetPath result1 s2))))))"

text \<open>The deferred cleanup of \<open>handleBackupFlow\<close>, run when the backup did not succeed.\<close>

definition cleanupPartial :: "'s FileSystemPort \<Rightarrow> string \<Rightarrow> 's \<Rightarrow> 's" where
  "cleanupPartial fs targetPath s =
     (let s1 = snd (RemoveAll fs targetPath s);
          parentDir = Dir fs targetPath
      in case ReadDir fs parentDir s1 of
           Inr entries \<Rightarrow> if entries = [] then snd (RemoveAll fs parentDir s1) else s1
         | Inl err \<Rightarrow> s1)"

text \<open>
  \<open>handleBackupFlow\<close>: \<open>cancelled\<close> is \<open>ctx.Err() != nil\<close> at entry, and the context is
  not cancelled later; \<open>now\<close> is the first \<open>time.Now()\<close> and \<open>later\<close> the one of the
  rotation. The result is the pair that the source returns, and the disk.
\<close>

definition handleBackupFlow :: "'s FileSystemPort \<Rightarrow> GitPort \<Rightarrow> (string \<Rightarrow> string \<Rightarrow> bool) \<Rightarrow> Config \<Rightarrow> string \<Rightarrow> string \<Rightarrow> Time \<Rightarrow> int \<Rightarrow> bool \<Rightarrow> 's \<Rightarrow> (BackupResult option \<times> ucerr option) \<times> 's" where
  "handleBackupFlow fs git pathMatch cfg repoRoot repoDir now later cancelled s =
     (if cancelled then ((None, Some ErrInterrupted), s)
      else (let dateDir = formatDate now
            in case createUniqueSnapshotDir fs repoDir dateDir now s of
                 (Inl err, s1) \<Rightarrow> ((None, Some ErrCritical), s1)
               | (Inr targetPath, s1) \<Rightarrow>
                   (let reservePath = Join fs [targetPath, ''.reserve''];
                        partial = Join fs [targetPath, ''.partial''];
                        done = Join fs [targetPath, ''.done'']
                    in case WriteFile fs partial [] 420 s1 of
                         (Some err, s2) \<Rightarrow> ((None, Some ErrCritical), cleanupPartial fs targetPath s2)
                       | (None, s2) \<Rightarrow>
                           (case copyRepoSnapshot fs git pathMatch repoRoot targetPath emptyResult s2 of
                              (Some err, result, s3) \<Rightarrow>
                                ((None, Some ErrCritical), cleanupPartial fs targetPath s3)
                            | (None, result, s3) \<Rightarrow>
                                (let s4 = snd (RemoveAll fs partial s3)
                                 in case WriteFile fs done [] 420 s4 of
                                      (Some err, s5) \<Rightarrow>
                                        ((None, Some ErrCritical), cleanupPartial fs targetPath s5)
                                    | (None, s5) \<Rightarrow>
                                        (let s6 = snd (RemoveAll fs reservePath s5);
                                             s7 = rotateRepo fs repoDir cfg False later s6
                                         in if PartialSuccess result
                                            then ((Some result, Some ErrCritical), s7)
                                            else ((Some result, None), s7)))))))"

text \<open>
  A sample repository \<open>/r\<close> with its \<open>.git\<close> directory and one untracked file, an
  empty repository directory \<open>/b/k\<close> in the backup root, and a Git port that lists the
  untracked paths given to it.
\<close>

definition repoDisk :: memdisk where
  "repoDisk =
     [(''/r'', NDir), (''/r/.git'', NDir), (''/r/.git/HEAD'', NFile ''ref: refs/heads/main'' 21 0),
      (''/r/keep.txt'', NFile ''kept'' 4 0),
      (''/b'', NDir), (''/b/k'', NDir)]"

definition sampleGit :: "string list \<Rightarrow> GitPort" where
  "sampleGit untracked =
     \<lparr>RepoRoot = Inr ''/r'',
      ConfigGet = (\<lambda>repoPath key. Inl ErrNotExist),
      ConfigGetWorktree = (\<lambda>repoPath key. Inl ErrNotExist),
      ConfigGetGlobal = (\<lambda>key. Inl ErrNotExist),
      GitDir = (\<lambda>repoPath. Inr ''.git''),
      GitCommonDir = (\<lambda>repoPath. Inr ''.git''),
      ListIgnoredUntracked = (\<lambda>repoPath. Inr untracked)\<rparr>"

text \<open>
  The invariant of both copy phases: \<open>PartialSuccess\<close> is set only together with an
  entry of \<open>copyErrors\<close>.
\<close>

definition errorsNoted :: "BackupResult \<times> string list \<times> 's \<Rightarrow> bool" where
  "errorsNoted acc = (PartialSuccess (fst acc) \<longrightarrow> fst (snd acc) \<noteq> [])"


section \<open>Hook subcommands\<close>

definition exitSuccess :: int where "exitSuccess = 0"
definition exitCriticalError :: int where "exitCriticalError = 1"
definition exitUsageError :: int where "exitUsageError = 2"
definition exitLockBusy :: int where "exitLockBusy = 76"
definition exitInterrupted :: int where "exitInterrupted = 130"

definition stampFileName :: string where
  "stampFileName = ''devback-backup-stamp''"

text \<open>\<open>strings.ToLower\<close> on ASCII letters.\<close>

definition toLowerChar :: "char \<Rightarrow> char" where
  "toLowerChar c =
     (if 65 \<le> (of_char c :: nat) \<and> (of_char c :: nat) \<le> 90 then char_of ((of_char c :: nat) + 32) else c)"

definition toLower :: "string \<Rightarrow> string" where
  "toLower s = map toLowerChar s"

text \<open>
  The flags of the \<open>hook\<close> command (\<open>verbose\<close>, \<open>dryRun\<close>, \<open>noNotify\<close> in the source)
  and the fields of \<open>hookPreflight\<close> that decide the flow (\<open>repoRoot\<close>, \<open>gitDir\<close>,
  \<open>runtimeCfg\<close>). The logger and the desktop notification do not touch the disk of the
  model and are left out.
\<close>

record hookConfig =
  hookVerbose :: bool
  hookDryRun :: bool
  hookNoNotify :: bool

record hookPreflight =
  pfRepoRoot :: string
  pfGitDir :: string
  pfRuntimeCfg :: Config

text \<open>
  What a hook run finds besides the two ports: whether \<open>depsFactory\<close> gives the Git,
  Config and FileSystem adapters, the result of \<open>os.UserHomeDir()\<close>, of
  \<open>loadConfigFile\<close> (an error, or whether the file exists) and of
  \<open>RuntimeConfigFromFile\<close>, the variable \<open>GIT_REFLOG_ACTION\<close>, whether the context is
  cancelled, and the clock at the debounce check and at the stamp update.
\<close>

record HookSetup =
  depsPresent :: bool
  userHomeDir :: "fserr + string"
  loadConfigFile :: "string \<Rightarrow> ucerr + bool"
  runtimeConfigFromFile :: "string \<Rightarrow> ucerr + Config"
  reflogAction :: string
  ctxCancelled :: bool
  debounceClock :: int
  stampClock :: int

definition parseHookBool :: "string \<Rightarrow> bool" where
  "parseHookBool v =
     (let w = toLower (trimSpace v) in w = ''1'' \<or> w = ''true'' \<or> w = ''yes'' \<or> w = ''on'')"

definition readRepoConfig :: "GitPort \<Rightarrow> string \<Rightarrow> string" where
  "readRepoConfig git repoRoot =
     (let fromGlobal = (case ConfigGetGlobal git ''backup.enabled'' of
                          Inr v \<Rightarrow> trimSpace v
                        | Inl err \<Rightarrow> '''');
          fromLocal = (case ConfigGet git repoRoot ''backup.enabled'' of
                         Inr v \<Rightarrow> if trimSpace v \<noteq> '''' then trimSpace v else fromGlobal
                       | Inl err \<Rightarrow> fromGlobal)
      in case ConfigGetWorktree git repoRoot ''backup.enabled'' of
           Inr v \<Rightarrow> if trimSpace v \<noteq> '''' then trimSpace v else fromLocal
         | Inl err \<Rightarrow> fromLocal)"

definition readBackupEnabled :: "GitPort \<Rightarrow> string \<Rightarrow> bool" where
  "readBackupEnabled git repoRoot =
     (let v = readRepoConfig git repoRoot in if v = '''' then False else parseHookBool v)"

text \<open>\<open>normalizeGitDir\<close>, for slash-separated paths that are clean already.\<close>

definition normalizeGitDir :: "string \<Rightarrow> string \<Rightarrow> string" where
  "normalizeGitDir repoRoot g =
     (if g = '''' then g
      else if hasPrefix g ''/'' then g
      else joinPath [repoRoot, g])"

definition runHookPreflight :: "HookSetup \<Rightarrow> GitPort \<Rightarrow> hookPreflight option" where
  "runHookPreflight env git =
     (if \<not> depsPresent env then None
      else (case RepoRoot git of
              Inl err \<Rightarrow> None
            | Inr repoRoot \<Rightarrow>
                if \<not> readBackupEnabled git repoRoot then None
                else (case userHomeDir env of
                        Inl err \<Rightarrow> None
                      | Inr homeDir \<Rightarrow>
                          (case loadConfigFile env homeDir of
                             Inl err \<Rightarrow> None
                           | Inr configExists \<Rightarrow>
                               if \<not> configExists then None
                               else (case runtimeConfigFromFile env homeDir of
                                       Inl err \<Rightarrow> None
                                     | Inr runtimeCfg \<Rightarrow>
                                         if trimSpace (BackupDir runtimeCfg) = '''' then None
                                         else (case GitDir git repoRoot of
                                                 Inl err \<Rightarrow> None
                                               | Inr g \<Rightarrow>
                                                   Some \<lparr>pfRepoRoot = repoRoot,
                                                         pfGitDir = normalizeGitDir repoRoot g,
                                                         pfRuntimeCfg = runtimeCfg\<rparr>))))))"

definition hookPathExists :: "'s FileSystemPort \<Rightarrow> string \<Rightarrow> 's \<Rightarrow> fserr + bool" where
  "hookPathExists fs path s =
     (case Stat fs path s of
        Inl err \<Rightarrow> if err = ErrNotExist then Inr False else Inl err
      | Inr info \<Rightarrow> Inr True)"

definition isRebaseInProgress :: "'s FileSystemPort \<Rightarrow> string \<Rightarrow> 's \<Rightarrow> fserr + bool" where
  "isRebaseInProgress fs g s =
     (if trimSpace g = '''' then Inl (ErrOther ''git dir is empty'')
      else (case hookPathExists fs (Join fs [g, ''rebase-merge'']) s of
              Inl err \<Rightarrow> Inl err
            | Inr found \<Rightarrow>
                if found then Inr True
                else (case hookPathExists fs (Join fs [g, ''rebase-apply'']) s of
                        Inl err \<Rightarrow> Inl err
                      | Inr found2 \<Rightarrow>
                          if found2 then Inr True
                          else hookPathExists fs (Join fs [g, ''REBASE_HEAD'']) s)))"

definition isRebaseReflogAction :: "HookSetup \<Rightarrow> bool" where
  "isRebaseReflogAction env = containsStr (toLower (reflogAction env)) ''rebase''"

definition hookBackupConfig :: "hookConfig \<Rightarrow> hookPreflight \<Rightarrow> Config" where
  "hookBackupConfig hookCfg preflight =
     (pfRuntimeCfg preflight)\<lparr>Verbose := hookVerbose hookCfg, DryRun := hookDryRun hookCfg\<rparr>"

text \<open>
  \<open>usecase.Backup\<close> is the parameter \<open>backup\<close>: from the configuration and the disk to
  the result, the error and the new disk. Every hook function returns its exit code and
  the disk.
\<close>

definition runBackupWithNotify :: "(Config \<Rightarrow> 's \<Rightarrow> (BackupResult option \<times> ucerr option) \<times> 's) \<Rightarrow> HookSetup \<Rightarrow> hookConfig \<Rightarrow> hookPreflight \<Rightarrow> 's \<Rightarrow> int \<times> 's" where
  "runBackupWithNotify backup env hookCfg preflight s =
     (if ctxCancelled env then (exitSuccess, s)
      else if hookDryRun hookCfg then (exitSuccess, s)
      else (case backup (hookBackupConfig hookCfg preflight) s of
              ((result, Some err), s1) \<Rightarrow>
                if err = ErrLockBusy \<or> err = ErrInterrupted then (exitSuccess, s1)
                else (exitSuccess, s1)
            | ((result, None), s1) \<Rightarrow> (exitSuccess, s1)))"

definition runHookPostCommit :: "(Config \<Rightarrow> 's \<Rightarrow> (BackupResult option \<times> ucerr option) \<times> 's) \<Rightarrow> HookSetup \<Rightarrow> 's FileSystemPort \<Rightarrow> GitPort \<Rightarrow> hookConfig \<Rightarrow> 's \<Rightarrow> int \<times> 's" where
  "runHookPostCommit backup env fs git hookCfg s =
     (case runHookPreflight env git of
        None \<Rightarrow> (exitSuccess, s)
      | Some preflight \<Rightarrow>
          if ctxCancelled env then (exitSuccess, s)
          else if isRebaseReflogAction env then (exitSuccess, s)
          else (case isRebaseInProgress fs (pfGitDir preflight) s of
                  Inl err \<Rightarrow> (exitSuccess, s)
                | Inr inRebase \<Rightarrow>
                    if inRebase then (exitSuccess, s)
                    else runBackupWithNotify backup env hookCfg preflight s))"

definition runHookPostMerge :: "(Config \<Rightarrow> 's \<Rightarrow> (BackupResult option \<times> ucerr option) \<times> 's) \<Rightarrow> HookSetup \<Rightarrow> 's FileSystemPort \<Rightarrow> GitPort \<Rightarrow> hookConfig \<Rightarrow> 's \<Rightarrow> int \<times> 's" where
  "runHookPostMerge backup env fs git hookCfg s =
     (case runHookPreflight env git of
        None \<Rightarrow> (exitSuccess, s)
      | Some preflight \<Rightarrow>
          if ctxCancelled env then (exitSuccess, s)
          else (case isRebaseInProgress fs (pfGitDir preflight) s of
                  Inl err \<Rightarrow> (exitSuccess, s)
                | Inr inRebase \<Rightarrow>
                    if inRebase then (exitSuccess, s)
                    else runBackupWithNotify backup env hookCfg preflight s))"

definition resolveStampPath :: "'s FileSystemPort \<Rightarrow> GitPort \<Rightarrow> hookPreflight \<Rightarrow> string" where
  "resolveStampPath fs git preflight =
     (let fromGitDir = (if trimSpace (pfGitDir preflight) = '''' then ''''
                        else Join fs [pfGitDir preflight, stampFileName])
      in case GitCommonDir git (pfRepoRoot preflight) of
           Inl err \<Rightarrow> fromGitDir
         | Inr c0 \<Rightarrow>
             (let c = normalizeGitDir (pfRepoRoot preflight) c0
              in if trimSpace c \<noteq> '''' then Join fs [c, stampFileName] else fromGitDir))"

text \<open>\<open>updateStamp\<close> and \<open>updateStampWithLog\<close>, for a context that is not cancelled.\<close>

definition updateStamp :: "'s FileSystemPort \<Rightarrow> string \<Rightarrow> int \<Rightarrow> 's \<Rightarrow> fserr option \<times> 's" where
  "updateStamp fs stampPath clock s =
     (if trimSpace stampPath = '''' then (Some (ErrOther ''stamp path is empty''), s)
      else (let tmpPath = stampPath @ ''.tmp'';
                timestamp = decimalInt (clock div Second)
            in case WriteFile fs tmpPath timestamp 420 s of
                 (Some err, s1) \<Rightarrow> (Some err, s1)
               | (None, s1) \<Rightarrow> Move fs tmpPath stampPath s1))"

definition updateStampWithLog :: "'s FileSystemPort \<Rightarrow> string \<Rightarrow> int \<Rightarrow> 's \<Rightarrow> 's" where
  "updateStampWithLog fs stampPath clock s =
     (if trimSpace stampPath = '''' then s else snd (updateStamp fs stampPath clock s))"

definition runPostRewriteBackup :: "(Config \<Rightarrow> 's \<Rightarrow> (BackupResult option \<times> ucerr option) \<times> 's) \<Rightarrow> HookSetup \<Rightarrow> 's FileSystemPort \<Rightarrow> hookConfig \<Rightarrow> hookPreflight \<Rightarrow> string \<Rightarrow> 's \<Rightarrow> int \<times> 's" where
  "runPostRewriteBackup backup env fs hookCfg preflight stampPath s =
     (if ctxCancelled env then (exitSuccess, s)
      else if hookDryRun hookCfg then (exitSuccess, s)
      else (case backup (hookBackupConfig hookCfg preflight) s of
              ((result, Some err), s1) \<Rightarrow>
                if err = ErrLockBusy then (exitSuccess, s1)
                else if err = ErrInterrupted then (exitSuccess, s1)
                else (exitSuccess, updateStampWithLog fs stampPath (stampClock env) s1)
            | ((result, None), s1) \<Rightarrow>
                (exitSuccess, updateStampWithLog fs stampPath (stampClock env) s1)))"

definition runHookPostRewrite :: "(Config \<Rightarrow> 's \<Rightarrow> (BackupResult option \<times> ucerr option) \<times> 's) \<Rightarrow> HookSetup \<Rightarrow> 's FileSystemPort \<Rightarrow> GitPort \<Rightarrow> hookConfig \<Rightarrow> string \<Rightarrow> 's \<Rightarrow> int \<times> 's" where
  "runHookPostRewrite backup env fs git hookCfg command s =
     (case runHookPreflight env git of
        None \<Rightarrow> (exitSuccess, s)
      | Some preflight \<Rightarrow>
          if ctxCancelled env then (exitSuccess, s)
          else (let isRebase = (toLower (trimSpace command) = ''rebase'');
                    stampPath = resolveStampPath fs git preflight
                in if isRebase
                   then (case isRebaseInProgress fs (pfGitDir preflight) s of
                           Inl err \<Rightarrow> (exitSuccess, s)
                         | Inr inRebase \<Rightarrow>
                             if inRebase then (exitSuccess, s)
                             else if fst (isDebounceActive (Some fs) stampPath (debounceClock env) s)
                             then (exitSuccess, s)
                             else runPostRewriteBackup backup env fs hookCfg preflight stampPath s)
                   else runPostRewriteBackup backup env fs hookCfg preflight stampPath s))"

text \<open>
  A sample hook run in the repository \<open>/r\<close>: backups are enabled in the local Git
  configuration, the configuration file exists, and \<open>Backup\<close> is the backup flow into
  \<open>/b/k\<close>.
\<close>

definition hookGit :: GitPort where
  "hookGit = (sampleGit [''keep.txt''])\<lparr>ConfigGet := (\<lambda>repoPath key. Inr ''true'')\<rparr>"

definition hookSetup :: "string \<Rightarrow> HookSetup" where
  "hookSetup action =
     \<lparr>depsPresent = True, userHomeDir = Inr ''/home/u'',
      loadConfigFile = (\<lambda>homeDir. Inr True),
      runtimeConfigFromFile = (\<lambda>homeDir. Inr (sampleConfig 0 0 0 0 True)),
      reflogAction = action, ctxCancelled = False,
      debounceClock = unixNano sampleNow, stampClock = unixNano sampleNow + Second\<rparr>"

definition hookBackup :: "string list \<Rightarrow> Config \<Rightarrow> memdisk \<Rightarrow> (BackupResult option \<times> ucerr option) \<times> memdisk" where
  "hookBackup untracked cfg s =
     handleBackupFlow memfs (sampleGit untracked) globMatch cfg ''/r'' ''/b/k'' sampleNow
       (unixNano sampleNow) False s"

section \<open>Properties of the string helpers and of remote parsing\<close>

lemma hasPrefix_append: "hasPrefix (p @ r) p"
  by (induction p) auto

lemma hasPrefix_iff: "hasPrefix s p \<longleftrightarrow> (\<exists>r. s = p @ r)"
  by (induction s p rule: hasPrefix.induct) auto

lemma trimSuffix_append: "trimSuffix (s @ suf) suf = s"
  by (simp add: trimSuffix_def hasSuffix_def hasPrefix_append)

lemma splitChar_nosep: "c \<notin> set s \<Longrightarrow> splitChar c s = [s]"
  by (induction s) auto

lemma splitChar_sep: "c \<notin> set a \<Longrightarrow> splitChar c (a @ c # b) = a # splitChar c b"
  by (induction a) auto

lemma splitChar_ne: "splitChar c s \<noteq> []"
  by (induction s) (auto split: list.splits)

lemma splitChar_length: "length (splitChar c s) = Suc (count_list s c)"
  by (induction s) (auto split: list.splits simp: splitChar_ne)

lemma splitChar_short: "length (splitChar c s) < 2 \<longleftrightarrow> c \<notin> set s"
  by (simp add: splitChar_length count_list_0_iff)

lemma containsStr_skip:
  "c \<notin> set a \<Longrightarrow> containsStr (a @ b) (c # rest) = containsStr b (c # rest)"
  by (induction a) auto

lemma containsStr_scheme_count: "containsStr s ''://'' \<Longrightarrow> 2 \<le> count_list s CHR ''/''"
proof (induction s)
  case Nil then show ?case by simp
next
  case (Cons c cs)
  show ?case
  proof (cases "hasPrefix (c # cs) ''://''")
    case True
    then obtain r where "c # cs = ''://'' @ r" by (auto simp: hasPrefix_iff)
    then show ?thesis by auto
  next
    case False
    with Cons show ?thesis by auto
  qed
qed

lemma trim_keep:
  "s \<noteq> [] \<Longrightarrow> hd s \<notin> set ct \<Longrightarrow> last s \<notin> set ct \<Longrightarrow> trim s ct = s"
proof -
  assume a: "s \<noteq> []" "hd s \<notin> set ct" "last s \<notin> set ct"
  then have 1: "dropWhile (\<lambda>c. c \<in> set ct) s = s"
    by (cases s) auto
  from a have 2: "dropWhile (\<lambda>c. c \<in> set ct) (rev s) = rev s"
    by (cases "rev s") (auto simp: last_rev hd_rev dest: arg_cong[where f=hd])
  show ?thesis by (simp add: trim_def 1 2)
qed

lemma trim_lead: "c \<in> set ct \<Longrightarrow> trim (c # s) ct = trim s ct"
  by (simp add: trim_def)


lemma takeWhile_upto: "c \<notin> set a \<Longrightarrow> takeWhile (\<lambda>x. x \<noteq> c) (a @ c # b) = a"
  by (induction a) auto

lemma dropWhile_upto: "c \<notin> set a \<Longrightarrow> dropWhile (\<lambda>x. x \<noteq> c) (a @ c # b) = c # b"
  by (induction a) auto

lemma scp_left: "CHR '':'' \<notin> set a \<Longrightarrow> scpLeft (a @ CHR '':'' # b) = a"
  by (simp add: scpLeft_def takeWhile_upto)

lemma scp_right: "CHR '':'' \<notin> set a \<Longrightarrow> scpRight (a @ CHR '':'' # b) = b"
  by (simp add: scpRight_def dropWhile_upto)

lemma host_after_at: "c \<notin> set h \<Longrightarrow>
  rev (takeWhile (\<lambda>x. x \<noteq> c) (rev h @ c # u)) = h"
  by (simp add: takeWhile_upto)

lemma lastTwo_pair: "lastTwo [a, b] = (a, b)"
  by (simp add: lastTwo_def)

lemma scp_two:
  assumes "CHR '':'' \<notin> set user" "CHR '':'' \<notin> set host" "CHR ''@'' \<notin> set host"
    "CHR ''/'' \<notin> set a" "CHR ''/'' \<notin> set c" "CHR ''/'' \<notin> set b"
    "trimSuffix (a @ CHR ''/'' # c) ''.git'' = a @ CHR ''/'' # b"
  shows "parseRemote up (user @ ''@'' @ host @ '':'' @ a @ ''/'' @ c) = (host, a, b)"
proof -
  let ?left = "user @ CHR ''@'' # host"
  let ?right = "a @ CHR ''/'' # c"
  let ?remote = "?left @ CHR '':'' # ?right"
  have nl: "CHR '':'' \<notin> set ?left" using assms by simp
  have l: "scpLeft ?remote = ?left" using nl by (rule scp_left)
  have r: "scpRight ?remote = ?right" using nl by (rule scp_right)
  have "scpParts ?remote = splitChar CHR ''/'' (trimSuffix ?right ''.git'')"
    by (simp only: scpParts_def r)
  then have parts: "scpParts ?remote = [a, b]"
    using assms by (simp add: splitChar_sep splitChar_nosep)
  have at: "containsStr ?left ''@''"
    by (induction user) auto
  have "count_list (CHR '':'' # ?right) CHR ''/'' = 1"
    using assms by (simp add: count_list_0_iff)
  then have "\<not> containsStr (CHR '':'' # ?right) ''://''"
    using containsStr_scheme_count by fastforce
  then have ns: "\<not> containsStr ?remote ''://''"
    using containsStr_skip [OF nl, of "CHR '':'' # ?right" "''//''"] by simp
  have "scpLike ?remote"
    using at ns l by (simp add: scpLike_def scpLeft_def)
  then show ?thesis
    using parts l assms(3) by (simp add: parseRemote_def lastTwo_pair host_after_at)
qed

lemma scp_lead_slash:
  assumes "CHR '':'' \<notin> set user" "CHR '':'' \<notin> set host" "CHR ''@'' \<notin> set host"
    "CHR ''/'' \<notin> set seg"
  shows "parseRemote up (user @ ''@'' @ host @ '':/'' @ seg @ ''.git'') = (host, [], seg)"
proof -
  have "trimSuffix ([] @ CHR ''/'' # seg @ ''.git'') ''.git'' = [] @ CHR ''/'' # seg"
    using trimSuffix_append [of "CHR ''/'' # seg" "''.git''"] by simp
  from scp_two [OF assms(1-3) _ _ assms(4) this, of up] assms(4)
  show ?thesis by simp
qed

lemma scp_trail_slash:
  assumes "CHR '':'' \<notin> set user" "CHR '':'' \<notin> set host" "CHR ''@'' \<notin> set host"
    "CHR ''/'' \<notin> set seg"
  shows "parseRemote up (user @ ''@'' @ host @ '':'' @ seg @ ''/'') = (host, seg, [])"
proof -
  have "trimSuffix (seg @ CHR ''/'' # []) ''.git'' = seg @ CHR ''/'' # []"
    by (simp add: trimSuffix_def hasSuffix_def)
  from scp_two [OF assms(1-3) assms(4) _ _ this, of up]
  show ?thesis by simp
qed

lemma scp_ok:
  assumes "CHR '':'' \<notin> set user" "CHR '':'' \<notin> set host" "CHR ''@'' \<notin> set host"
    "CHR ''/'' \<notin> set ow" "CHR ''/'' \<notin> set r"
  shows "parseRemote up (user @ ''@'' @ host @ '':'' @ ow @ ''/'' @ r @ ''.git'') = (host, ow, r)"
proof -
  have "trimSuffix (ow @ CHR ''/'' # r @ ''.git'') ''.git'' = ow @ CHR ''/'' # r"
    using trimSuffix_append [of "ow @ CHR ''/'' # r" "''.git''"] by simp
  from scp_two [OF assms(1-4) _ assms(5) this, of up] assms(5)
  show ?thesis by simp
qed

lemma scp_bare:
  assumes "CHR '':'' \<notin> set user" "CHR '':'' \<notin> set host" "CHR ''/'' \<notin> set seg"
    and "up (user @ ''@'' @ host @ '':'' @ seg @ ''.git'') = None"
  shows "parseRemote up (user @ ''@'' @ host @ '':'' @ seg @ ''.git'') = ([], [], [])"
proof -
  let ?left = "user @ CHR ''@'' # host"
  let ?remote = "?left @ CHR '':'' # seg @ ''.git''"
  have nl: "CHR '':'' \<notin> set ?left" using assms by simp
  have r: "scpRight ?remote = seg @ ''.git''" using nl by (rule scp_right)
  have "scpParts ?remote = splitChar CHR ''/'' (trimSuffix (seg @ ''.git'') ''.git'')"
    by (simp only: scpParts_def r)
  then have "scpParts ?remote = [seg]"
    using assms(3) by (simp add: trimSuffix_append splitChar_nosep)
  then show ?thesis
    using assms(4) by (simp add: parseRemote_def)
qed

lemma url_ok:
  assumes "CHR ''/'' \<notin> set ow" "CHR ''/'' \<notin> set r" "ow \<noteq> []" "r \<noteq> []" "host \<noteq> []"
    and "up (''https://'' @ host @ ''/'' @ ow @ ''/'' @ r @ ''.git'') =
           Some \<lparr>Host = host, Path = ''/'' @ ow @ ''/'' @ r @ ''.git''\<rparr>"
  shows "parseRemote up (''https://'' @ host @ ''/'' @ ow @ ''/'' @ r @ ''.git'') = (host, ow, r)"
proof -
  let ?remote = "''https://'' @ host @ ''/'' @ ow @ ''/'' @ r @ ''.git''"
  let ?u = "\<lparr>Host = host, Path = ''/'' @ ow @ ''/'' @ r @ ''.git''\<rparr>"
  have "containsStr ?remote ''://''" by simp
  then have ns: "\<not> scpLike ?remote" by (simp add: scpLike_def)
  have "trimSuffix (Path ?u) ''.git'' = CHR ''/'' # ow @ CHR ''/'' # r"
    using trimSuffix_append [of "CHR ''/'' # ow @ CHR ''/'' # r" "''.git''"] by simp
  moreover have "trim (CHR ''/'' # ow @ CHR ''/'' # r) ''/'' = ow @ CHR ''/'' # r"
  proof -
    have "hd (ow @ CHR ''/'' # r) \<notin> set ''/''" using assms by (cases ow) auto
    moreover have "last (ow @ CHR ''/'' # r) \<notin> set ''/''"
      using assms by (cases r rule: rev_cases) auto
    ultimately have "trim (ow @ CHR ''/'' # r) ''/'' = ow @ CHR ''/'' # r"
      by (intro trim_keep) auto
    then show ?thesis by (simp add: trim_lead)
  qed
  ultimately have "urlParts ?u = [ow, r]"
    using assms by (simp add: urlParts_def splitChar_sep splitChar_nosep)
  then show ?thesis
    using ns assms by (simp add: parseRemote_def lastTwo_pair del: containsStr.simps)
qed

lemma few_segments:
  assumes "scpLike remote \<Longrightarrow> CHR ''/'' \<notin> set (trimSuffix (scpRight remote) ''.git'')"
    and "\<And>u. up remote = Some u \<Longrightarrow>
           Host u = [] \<or> CHR ''/'' \<notin> set (trim (trimSuffix (Path u) ''.git'') ''/'')"
  shows "parseRemote up remote = ([], [], [])"
proof -
  have 1: "\<not> (scpLike remote \<and> 2 \<le> length (scpParts remote))"
    using assms(1) splitChar_short [of "CHR ''/''" "trimSuffix (scpRight remote) ''.git''"]
    by (auto simp: scpParts_def)
  have 2: "up remote = Some u \<Longrightarrow> \<not> (Host u \<noteq> [] \<and> 2 \<le> length (urlParts u))" for u
    using assms(2) [of u] splitChar_short [of "CHR ''/''" "trim (trimSuffix (Path u) ''.git'') ''/''"]
    by (auto simp: urlParts_def)
  show ?thesis
    using 1 2 by (auto simp: parseRemote_def split: option.splits)
qed


lemma url_bare:
  assumes "CHR ''/'' \<notin> set seg" "host \<noteq> []"
    and "up (''https://'' @ host @ ''/'' @ seg @ ''.git'') =
           Some \<lparr>Host = host, Path = ''/'' @ seg @ ''.git''\<rparr>"
  shows "parseRemote up (''https://'' @ host @ ''/'' @ seg @ ''.git'') = ([], [], [])"
proof -
  let ?remote = "''https://'' @ host @ ''/'' @ seg @ ''.git''"
  let ?u = "\<lparr>Host = host, Path = ''/'' @ seg @ ''.git''\<rparr>"
  have "containsStr ?remote ''://''" by simp
  then have ns: "\<not> scpLike ?remote" by (simp add: scpLike_def)
  have "trimSuffix (Path ?u) ''.git'' = CHR ''/'' # seg"
    using trimSuffix_append [of "CHR ''/'' # seg" "''.git''"] by simp
  moreover have "CHR ''/'' \<notin> set (trim (CHR ''/'' # seg) ''/'')"
  proof -
    have "set (trim s ct) \<subseteq> set s" for s ct :: string
      using set_dropWhileD [of _ "\<lambda>c. c \<in> set ct" "rev (dropWhile (\<lambda>c. c \<in> set ct) s)"]
        set_dropWhileD [of _ "\<lambda>c. c \<in> set ct" s]
      by (auto simp: trim_def)
    moreover have "trim (CHR ''/'' # seg) ''/'' = trim seg ''/''"
      by (simp add: trim_lead)
    ultimately show ?thesis using assms(1) by auto
  qed
  ultimately have "length (urlParts ?u) < 2"
    using splitChar_short [of "CHR ''/''" "trim (CHR ''/'' # seg) ''/''"] by (simp add: urlParts_def)
  then show ?thesis
    using ns assms(3) by (simp add: parseRemote_def del: containsStr.simps)
qed

text \<open>
  Claim C9, as the code has it. The SCP-like spelling \<open>user@host:o/r.git\<close> and the
  URL-like spelling \<open>https://host/o/r.git\<close> of one remote parse to the same triple
  \<open>(host, o, r)\<close>, the trailing \<open>.git\<close> stripped: for a host without colon or at sign, a
  user without colon, and non-empty owner and repository names without slash, where
  \<open>url.Parse\<close> returns the host and the path of the URL-like spelling. The segments of
  a path are the parts between its slashes, the empty ones included, and only the
  URL-like branch trims the slashes at both ends first. So the SCP-like remotes
  \<open>user@host:/seg.git\<close> and \<open>user@host:seg/\<close>, with one path segment after the host, do
  not parse to the empty triple but to \<open>(host, , seg)\<close> and \<open>(host, seg, )\<close>. The
  empty triple is returned for \<open>user@host:seg.git\<close> (where \<open>url.Parse\<close> returns an error)
  and for \<open>https://host/seg.git\<close>, and for every remote with no slash in the SCP path and
  no usable host or no slash in the trimmed URL path.
\<close>

theorem C9_parseRemote_spellings:
  assumes "CHR '':'' \<notin> set user" "CHR '':'' \<notin> set host" "CHR ''@'' \<notin> set host" "host \<noteq> []"
    and "CHR ''/'' \<notin> set ow" "CHR ''/'' \<notin> set r" "ow \<noteq> []" "r \<noteq> []"
    and "urlParse (''https://'' @ host @ ''/'' @ ow @ ''/'' @ r @ ''.git'') =
           Some \<lparr>Host = host, Path = ''/'' @ ow @ ''/'' @ r @ ''.git''\<rparr>"
  shows "parseRemote urlParse (user @ ''@'' @ host @ '':'' @ ow @ ''/'' @ r @ ''.git'') = (host, ow, r)
       \<and> parseRemote urlParse (''https://'' @ host @ ''/'' @ ow @ ''/'' @ r @ ''.git'') = (host, ow, r)
       \<and> (CHR ''/'' \<notin> set seg \<longrightarrow>
            parseRemote urlParse (user @ ''@'' @ host @ '':/'' @ seg @ ''.git'') = (host, [], seg)
            \<and> parseRemote urlParse (user @ ''@'' @ host @ '':'' @ seg @ ''/'') = (host, seg, []))
       \<and> (CHR ''/'' \<notin> set seg
            \<and> urlParse (user @ ''@'' @ host @ '':'' @ seg @ ''.git'') = None \<longrightarrow>
            parseRemote urlParse (user @ ''@'' @ host @ '':'' @ seg @ ''.git'') = ([], [], []))
       \<and> (CHR ''/'' \<notin> set seg
            \<and> urlParse (''https://'' @ host @ ''/'' @ seg @ ''.git'') =
                 Some \<lparr>Host = host, Path = ''/'' @ seg @ ''.git''\<rparr> \<longrightarrow>
            parseRemote urlParse (''https://'' @ host @ ''/'' @ seg @ ''.git'') = ([], [], []))
       \<and> ((scpLike remote \<longrightarrow> CHR ''/'' \<notin> set (trimSuffix (scpRight remote) ''.git''))
            \<and> (\<forall>u. urlParse remote = Some u \<longrightarrow>
                   Host u = [] \<or> CHR ''/'' \<notin> set (trim (trimSuffix (Path u) ''.git'') ''/''))
          \<longrightarrow> parseRemote urlParse remote = ([], [], []))"
proof (intro conjI impI)
  show "parseRemote urlParse (user @ ''@'' @ host @ '':'' @ ow @ ''/'' @ r @ ''.git'') = (host, ow, r)"
    using assms by (intro scp_ok)
  show "parseRemote urlParse (''https://'' @ host @ ''/'' @ ow @ ''/'' @ r @ ''.git'') = (host, ow, r)"
    using assms by (intro url_ok)
  show "parseRemote urlParse (user @ ''@'' @ host @ '':/'' @ seg @ ''.git'') = (host, [], seg)"
    if "CHR ''/'' \<notin> set seg"
    using assms that by (intro scp_lead_slash)
  show "parseRemote urlParse (user @ ''@'' @ host @ '':'' @ seg @ ''/'') = (host, seg, [])"
    if "CHR ''/'' \<notin> set seg"
    using assms that by (intro scp_trail_slash)
  show "parseRemote urlParse (user @ ''@'' @ host @ '':'' @ seg @ ''.git'') = ([], [], [])"
    if "CHR ''/'' \<notin> set seg \<and> urlParse (user @ ''@'' @ host @ '':'' @ seg @ ''.git'') = None"
    using assms that by (intro scp_bare) auto
  show "parseRemote urlParse (''https://'' @ host @ ''/'' @ seg @ ''.git'') = ([], [], [])"
    if "CHR ''/'' \<notin> set seg
        \<and> urlParse (''https://'' @ host @ ''/'' @ seg @ ''.git'') =
             Some \<lparr>Host = host, Path = ''/'' @ seg @ ''.git''\<rparr>"
    using assms that by (intro url_bare) auto
  show "parseRemote urlParse remote = ([], [], [])"
    if "(scpLike remote \<longrightarrow> CHR ''/'' \<notin> set (trimSuffix (scpRight remote) ''.git''))
        \<and> (\<forall>u. urlParse remote = Some u \<longrightarrow>
               Host u = [] \<or> CHR ''/'' \<notin> set (trim (trimSuffix (Path u) ''.git'') ''/''))"
    using that by (intro few_segments) auto
qed

theorem C9_parseRemote_spellings_witness:
  "parseRemote urlParse_sample ''git@host:o/r.git'' = (''host'', ''o'', ''r'')
   \<and> parseRemote urlParse_sample ''https://host/o/r.git'' = (''host'', ''o'', ''r'')
   \<and> parseRemote urlParse_sample ''git@host:/r.git'' = (''host'', [], ''r'')
   \<and> parseRemote urlParse_sample ''git@host:r/'' = (''host'', ''r'', [])
   \<and> urlParse_sample ''git@host:r.git'' = None
   \<and> parseRemote urlParse_sample ''git@host:r.git'' = ([], [], [])
   \<and> \<not> scpLike ''https://host/d/''
   \<and> urlParse_sample ''https://host/d/'' = Some \<lparr>Host = ''host'', Path = ''/d/''\<rparr>
   \<and> trim (trimSuffix ''/d/'' ''.git'') ''/'' = ''d''
   \<and> parseRemote urlParse_sample ''https://host/r.git'' = ([], [], [])
   \<and> parseRemote urlParse_sample ''https://host/d/'' = ([], [], [])"
proof -
  have sample: "urlParse_sample (''https://'' @ ''host'' @ ''/'' @ ''o'' @ ''/'' @ ''r'' @ ''.git'') =
      Some \<lparr>Host = ''host'', Path = ''/'' @ ''o'' @ ''/'' @ ''r'' @ ''.git''\<rparr>"
    by (simp add: urlParse_sample_def)
  have one: "urlParse_sample (''https://'' @ ''host'' @ ''/'' @ ''r'' @ ''.git'') =
      Some \<lparr>Host = ''host'', Path = ''/'' @ ''r'' @ ''.git''\<rparr>"
    by (simp add: urlParse_sample_def)
  have none: "urlParse_sample ''git@host:r.git'' = None"
    by (simp add: urlParse_sample_def)
  have url: "\<not> scpLike ''https://host/d/''"
    by (simp add: scpLike_def)
  have dir: "urlParse_sample ''https://host/d/'' = Some \<lparr>Host = ''host'', Path = ''/d/''\<rparr>"
    by (simp add: urlParse_sample_def)
  have trimmed: "trim (trimSuffix ''/d/'' ''.git'') ''/'' = ''d''"
    by (simp add: trim_def trimSuffix_def hasSuffix_def)
  show ?thesis
    using C9_parseRemote_spellings [of "''git''" "''host''" "''o''" "''r''" urlParse_sample
        "''r''" "''https://host/d/''", OF _ _ _ _ _ _ _ _ sample] one none url dir trimmed
    by simp
qed

text \<open>
  The claim as worded fails on SCP-like remotes whose path starts or ends with a slash:
  \<open>git@example.com:/repo.git\<close> and \<open>git@example.com:repo/\<close> have the single path segment
  \<open>repo\<close> after the host, and the code returns a triple with an empty owner or an empty
  repository name, not the empty triple.
\<close>

theorem C9_one_segment_counterexample:
  "scpLike ''git@example.com:/repo.git''
   \<and> filter (\<lambda>p. p \<noteq> []) (scpParts ''git@example.com:/repo.git'') = [''repo'']
   \<and> parseRemote urlParse_sample ''git@example.com:/repo.git'' = (''example.com'', [], ''repo'')
   \<and> parseRemote urlParse_sample ''git@example.com:/repo.git'' \<noteq> ([], [], [])
   \<and> scpLike ''git@example.com:repo/''
   \<and> filter (\<lambda>p. p \<noteq> []) (scpParts ''git@example.com:repo/'') = [''repo'']
   \<and> parseRemote urlParse_sample ''git@example.com:repo/'' = (''example.com'', ''repo'', [])
   \<and> parseRemote urlParse_sample ''git@example.com:repo/'' \<noteq> ([], [], [])"
  by code_simp

section \<open>Properties of the debounce check and of lock validation\<close>

lemma time_Sub_debounce: "time_Sub t u < debounceTimeout \<longleftrightarrow> t - u < 60 * Second"
  by (auto simp: time_Sub_def debounceTimeout_def minDuration_def maxDuration_def Second_def)

text \<open>
  Claim C7. The debounce check reports "active" if and only if the stamp file can be read
  (at a stamp path that is not blank, through a port that is present), its trimmed content
  parses as a decimal integer \<open>ts\<close>, and \<open>now\<close> minus \<open>time.Unix(ts)\<close> is strictly
  less than 60 seconds; a missing or unreadable stamp, an empty one and one that does not
  parse always give "not active".
\<close>

theorem C7_isDebounceActive_iff:
  "(fst (isDebounceActive fs stampPath now s) \<longleftrightarrow>
      (\<exists>f data ts. fs = Some f \<and> trimSpace stampPath \<noteq> [] \<and> ReadFile f stampPath s = Inr data
          \<and> parseInt64 (trimSpace data) = Some ts \<and> now - time_Unix ts < 60 * Second))
   \<and> ((fs = None
        \<or> (\<exists>f e. fs = Some f \<and> ReadFile f stampPath s = Inl e)
        \<or> (\<exists>f data. fs = Some f \<and> ReadFile f stampPath s = Inr data
              \<and> (trimSpace data = [] \<or> parseInt64 (trimSpace data) = None)))
       \<longrightarrow> \<not> fst (isDebounceActive fs stampPath now s))"
proof -
  have empty: "parseInt64 [] = None"
    by (simp add: parseInt64_def)
  show ?thesis
    by (cases fs)
       (auto simp: isDebounceActive_def Let_def time_Sub_debounce empty
             split: sum.splits option.splits if_splits)
qed

theorem C7_isDebounceActive_iff_witness:
  "ReadFile memfs ''/r/.git/devback-backup-stamp'' [] = Inl ErrNotExist
   \<and> \<not> fst (isDebounceActive (Some memfs) ''/r/.git/devback-backup-stamp'' (1030 * Second) [])
   \<and> ReadFile memfs ''/r/.git/devback-backup-stamp'' (stampDisk paddedStamp) = Inr paddedStamp
   \<and> trimSpace paddedStamp = ''1000''
   \<and> parseInt64 ''1000'' = Some 1000
   \<and> fst (isDebounceActive (Some memfs) ''/r/.git/devback-backup-stamp'' (1030 * Second) (stampDisk paddedStamp))
   \<and> \<not> fst (isDebounceActive (Some memfs) ''/r/.git/devback-backup-stamp'' (1060 * Second) (stampDisk paddedStamp))"
proof -
  have missing: "ReadFile memfs ''/r/.git/devback-backup-stamp'' [] = Inl ErrNotExist"
    by (simp add: memfs_def mem_readFile_def)
  have path: "trimSpace ''/r/.git/devback-backup-stamp'' \<noteq> []"
    by code_simp
  have content: "ReadFile memfs ''/r/.git/devback-backup-stamp'' (stampDisk paddedStamp) = Inr paddedStamp"
    by (simp add: memfs_def mem_readFile_def stampDisk_def)
  have trimmed: "trimSpace paddedStamp = ''1000''"
    by code_simp
  have parsed: "parseInt64 ''1000'' = Some 1000"
    by code_simp
  have fresh: "1030 * Second - time_Unix 1000 < 60 * Second"
    by code_simp
  have expired: "\<not> 1060 * Second - time_Unix 1000 < 60 * Second"
    by code_simp
  from missing C7_isDebounceActive_iff [of "Some memfs" "''/r/.git/devback-backup-stamp''" "1030 * Second" "[]"]
  have 1: "\<not> fst (isDebounceActive (Some memfs) ''/r/.git/devback-backup-stamp'' (1030 * Second) [])"
    by blast
  from path content trimmed parsed fresh
    C7_isDebounceActive_iff [of "Some memfs" "''/r/.git/devback-backup-stamp''" "1030 * Second" "stampDisk paddedStamp"]
  have 2: "fst (isDebounceActive (Some memfs) ''/r/.git/devback-backup-stamp'' (1030 * Second) (stampDisk paddedStamp))"
    by auto
  from content trimmed parsed expired
    C7_isDebounceActive_iff [of "Some memfs" "''/r/.git/devback-backup-stamp''" "1060 * Second" "stampDisk paddedStamp"]
  have 3: "\<not> fst (isDebounceActive (Some memfs) ''/r/.git/devback-backup-stamp'' (1060 * Second) (stampDisk paddedStamp))"
    by auto
  from missing 1 content trimmed parsed 2 3 show ?thesis by blast
qed

lemma no_id_no_ticks:
  "getProcessStartID env pid = None \<Longrightarrow> getProcessStartTicks env pid = None"
  by (cases "goos env") (auto simp: getProcessStartID_def getProcessStartTicks_def split: if_splits option.splits)

text \<open>
  Claim C2, as the code has it. For a lock record that can be read, is not older than
  \<open>maxAge\<close>, whose hostname is empty or is the local hostname (or the local hostname is
  not available), and whose \<open>processStartId\<close> is not empty: when the local
  \<open>processStartId\<close> of the recorded PID can be computed, the lock is held exactly when
  the two are equal, so it is stale whenever they differ; when it cannot be computed,
  validation falls back to the liveness of the process.
\<close>

theorem C2_validate_start_id:
  assumes "readLockInfo env lockPath = Some info"
    and "\<not> maxAge < time_Sub (clockNow env) (StartTime info)"
    and "Hostname info = [] \<or> osHostname env = None \<or> osHostname env = Some (Hostname info)"
    and "ProcessStartID info \<noteq> []"
  shows "validateLockFile env lockPath maxAge =
           (case getProcessStartID env (PID info) of
              Some ident \<Rightarrow> ident = ProcessStartID info
            | None \<Rightarrow> isProcessRunning env (PID info))"
proof (cases "getProcessStartID env (PID info)")
  case None
  then have "getProcessStartTicks env (PID info) = None"
    by (rule no_id_no_ticks)
  with None assms show ?thesis
    by (auto simp: validateLockFile_def split: option.splits)
next
  case (Some ident)
  with assms show ?thesis
    by (auto simp: validateLockFile_def split: option.splits)
qed

theorem C2_validate_start_id_witness:
  "getProcessStartID (sampleEnv True (sampleRecord ''alpha'' ''ticks:555'')) 4242 = Some ''ticks:777''
   \<and> \<not> validateLockFile (sampleEnv True (sampleRecord ''alpha'' ''ticks:555''))
          ''/b/k/.backup.lock/info'' (24 * Hour)"
proof -
  let ?info = "sampleRecord ''alpha'' ''ticks:555''"
  let ?env = "sampleEnv True ?info"
  have h1: "readLockInfo ?env ''/b/k/.backup.lock/info'' = Some ?info"
    by (simp add: sampleEnv_def)
  have h2: "\<not> 24 * Hour < time_Sub (clockNow ?env) (StartTime ?info)"
    by (simp add: sampleEnv_def sampleRecord_def time_Sub_def Hour_def Second_def maxDuration_def minDuration_def)
  have h3: "Hostname ?info = [] \<or> osHostname ?env = None \<or> osHostname ?env = Some (Hostname ?info)"
    by (simp add: sampleEnv_def sampleRecord_def)
  have h4: "ProcessStartID ?info \<noteq> []"
    by (simp add: sampleRecord_def)
  have pid: "PID ?info = 4242"
    by (simp add: sampleRecord_def)
  have ident: "getProcessStartID ?env 4242 = Some ''ticks:777''"
    by code_simp
  show ?thesis
    using C2_validate_start_id [OF h1 h2 h3 h4] ident pid
    by (simp add: sampleRecord_def)
qed

text \<open>
  The claim as the specification words it fails where the local \<open>processStartId\<close> cannot
  be obtained: with \<open>/proc\<close> unreadable and the process alive, the lock of a record that
  has a \<open>processStartId\<close> is reported held.
\<close>

theorem C2_unobtainable_counterexample:
  "ProcessStartID (sampleRecord ''alpha'' ''ticks:555'') \<noteq> []
   \<and> getProcessStartID (sampleEnv False (sampleRecord ''alpha'' ''ticks:555'')) 4242 = None
   \<and> validateLockFile (sampleEnv False (sampleRecord ''alpha'' ''ticks:555''))
        ''/b/k/.backup.lock/info'' (24 * Hour)"
  by code_simp


section \<open>Properties of the exclude filter\<close>

lemma shouldSkipLoop_step:
  "shouldSkipLoop pm np (ex # excludes) =
     (if specPhaseD_matches pm (replaceChar backslash CHR ''/'' ex) np then (True, ex)
      else shouldSkipLoop pm np excludes)"
  by (simp add: Let_def specPhaseD_matches_def)

lemma shouldSkipLoop_iff:
  "fst (shouldSkipLoop pm np excludes) \<longleftrightarrow>
     (\<exists>ex \<in> set excludes. specPhaseD_matches pm (replaceChar backslash CHR ''/'' ex) np)"
  by (induction excludes) (simp_all add: shouldSkipLoop_step del: shouldSkipLoop.simps(2))

lemma shouldSkipLoop_pattern:
  "fst (shouldSkipLoop pm np excludes) \<Longrightarrow>
     snd (shouldSkipLoop pm np excludes) \<in> set excludes
     \<and> specPhaseD_matches pm (replaceChar backslash CHR ''/'' (snd (shouldSkipLoop pm np excludes))) np"
  by (induction excludes)
     (auto simp: shouldSkipLoop_step simp del: shouldSkipLoop.simps(2) split: if_splits)

text \<open>
  Claim C5, as the code has it. The filter skips a path exactly when some pattern matches
  it under the rule of Phase D applied to the path and to the pattern with every backslash
  replaced by a slash, and the pattern it records is one that matches. With the
  candidates \<open>logs/app.log\<close>, \<open>notes.tmp\<close>, \<open>keep.txt\<close> and the patterns \<open>*.tmp\<close>,
  \<open>logs/*.log\<close>, only \<open>keep.txt\<close> survives, for a matcher that agrees with shell
  matching on these names.
\<close>

theorem C5_shouldSkip_rule:
  "(fst (shouldSkip pathMatch p excludes) \<longleftrightarrow>
      (\<exists>ex \<in> set excludes.
          specPhaseD_matches pathMatch (replaceChar backslash CHR ''/'' ex) (replaceChar backslash CHR ''/'' p)))
   \<and> (fst (shouldSkip pathMatch p excludes) \<longrightarrow>
        snd (shouldSkip pathMatch p excludes) \<in> set excludes
        \<and> specPhaseD_matches pathMatch
             (replaceChar backslash CHR ''/'' (snd (shouldSkip pathMatch p excludes)))
             (replaceChar backslash CHR ''/'' p))
   \<and> (pathMatch ''*.tmp'' ''notes.tmp'' \<and> \<not> pathMatch ''*.tmp'' ''app.log''
        \<and> pathMatch ''logs/*.log'' ''logs/app.log''
        \<and> \<not> pathMatch ''*.tmp'' ''keep.txt'' \<and> \<not> pathMatch ''logs/*.log'' ''keep.txt''
       \<longrightarrow> filter (\<lambda>c. \<not> fst (shouldSkip pathMatch c [''*.tmp'', ''logs/*.log'']))
                  [''logs/app.log'', ''notes.tmp'', ''keep.txt''] = [''keep.txt''])"
proof (intro conjI impI)
  show "fst (shouldSkip pathMatch p excludes) \<longleftrightarrow>
      (\<exists>ex \<in> set excludes.
          specPhaseD_matches pathMatch (replaceChar backslash CHR ''/'' ex) (replaceChar backslash CHR ''/'' p))"
    by (simp add: shouldSkip_def shouldSkipLoop_iff)
next
  assume "fst (shouldSkip pathMatch p excludes)"
  then show "snd (shouldSkip pathMatch p excludes) \<in> set excludes"
    and "specPhaseD_matches pathMatch
             (replaceChar backslash CHR ''/'' (snd (shouldSkip pathMatch p excludes)))
             (replaceChar backslash CHR ''/'' p)"
    using shouldSkipLoop_pattern [of pathMatch "replaceChar backslash CHR ''/'' p" excludes]
    by (simp_all add: shouldSkip_def)
next
  assume m: "pathMatch ''*.tmp'' ''notes.tmp'' \<and> \<not> pathMatch ''*.tmp'' ''app.log''
        \<and> pathMatch ''logs/*.log'' ''logs/app.log''
        \<and> \<not> pathMatch ''*.tmp'' ''keep.txt'' \<and> \<not> pathMatch ''logs/*.log'' ''keep.txt''"
  have b1: "path_Base ''logs/app.log'' = ''app.log''"
    and b2: "path_Base ''notes.tmp'' = ''notes.tmp''"
    and b3: "path_Base ''keep.txt'' = ''keep.txt''"
    by (simp_all add: path_Base_def)
  have n: "replaceChar backslash CHR ''/'' ''*.tmp'' = ''*.tmp''"
    "replaceChar backslash CHR ''/'' ''logs/*.log'' = ''logs/*.log''"
    "replaceChar backslash CHR ''/'' ''logs/app.log'' = ''logs/app.log''"
    "replaceChar backslash CHR ''/'' ''notes.tmp'' = ''notes.tmp''"
    "replaceChar backslash CHR ''/'' ''keep.txt'' = ''keep.txt''"
    by (simp_all add: replaceChar_def backslash_def)
  have h: "hasMeta ''*.tmp''" "hasMeta ''logs/*.log''"
    by (simp_all add: hasMeta_def)
  from m show "filter (\<lambda>c. \<not> fst (shouldSkip pathMatch c [''*.tmp'', ''logs/*.log'']))
                  [''logs/app.log'', ''notes.tmp'', ''keep.txt''] = [''keep.txt'']"
    by (simp add: shouldSkip_def shouldSkipLoop_step specPhaseD_matches_def n h b1 b2 b3
             del: shouldSkipLoop.simps(2))
qed

theorem C5_shouldSkip_rule_witness:
  "fst (shouldSkip globMatch ''notes.tmp'' [''*.tmp'', ''logs/*.log''])
   \<and> snd (shouldSkip globMatch ''notes.tmp'' [''*.tmp'', ''logs/*.log'']) = ''*.tmp''
   \<and> filter (\<lambda>c. \<not> fst (shouldSkip globMatch c [''*.tmp'', ''logs/*.log'']))
        [''logs/app.log'', ''notes.tmp'', ''keep.txt''] = [''keep.txt'']"
proof -
  have m: "globMatch ''*.tmp'' ''notes.tmp'' \<and> \<not> globMatch ''*.tmp'' ''app.log''
        \<and> globMatch ''logs/*.log'' ''logs/app.log''
        \<and> \<not> globMatch ''*.tmp'' ''keep.txt'' \<and> \<not> globMatch ''logs/*.log'' ''keep.txt''"
    by code_simp
  have s: "fst (shouldSkip globMatch ''notes.tmp'' [''*.tmp'', ''logs/*.log''])"
    "snd (shouldSkip globMatch ''notes.tmp'' [''*.tmp'', ''logs/*.log'']) = ''*.tmp''"
    by code_simp+
  show ?thesis
    using C5_shouldSkip_rule [of globMatch "''notes.tmp''" "[''*.tmp'', ''logs/*.log'']"] m s
    by blast
qed

text \<open>
  The claim as the specification words it, on the path and the pattern as given, fails on
  a path with a backslash: the file \<open>a\b\<close> is skipped by the literal pattern \<open>a\<close>,
  which neither equals it nor is followed by a slash in it.
\<close>

theorem C5_backslash_counterexample:
  "fst (shouldSkip globMatch [CHR ''a'', backslash, CHR ''b''] [''a''])
   \<and> \<not> specPhaseD_matches globMatch ''a'' [CHR ''a'', backslash, CHR ''b'']"
  by code_simp


section \<open>Properties of rotation\<close>

subsection \<open>Dry run\<close>

lemma keepDaysLoop_dry: "snd (keepDaysLoop fs True now limit snaps alive s) = s"
proof (induction snaps arbitrary: alive s)
  case Nil
  show ?case by simp
next
  case (Cons sn snaps)
  show ?case
    by (cases alive) (simp_all add: Cons.IH split_beta split: sum.splits)
qed

lemma keepCountLoop_dry: "snd (keepCountLoop fs True toRemove snaps alive s) = s"
proof (induction snaps arbitrary: alive toRemove s)
  case Nil
  show ?case by simp
next
  case (Cons sn snaps)
  show ?case
    by (cases alive) (simp_all add: Cons.IH split_beta)
qed

lemma sizeLoop_dry: "snd (sizeLoop fs True kbLimit totalKB snaps alive sizes s) = s"
proof (induction snaps arbitrary: alive sizes totalKB s)
  case Nil
  show ?case by simp
next
  case (Cons sn snaps)
  show ?case
    by (cases alive; cases sizes) (simp_all add: Cons.IH split_beta)
qed

lemma applyKeepDays_dry: "snd (applyKeepDays fs cfg True snaps alive now s) = s"
  by (simp add: applyKeepDays_def keepDaysLoop_dry)

lemma applyKeepCount_dry: "snd (applyKeepCount fs cfg True snaps alive s) = s"
  by (simp add: applyKeepCount_def Let_def keepCountLoop_dry)

lemma applySizeLimit_dry: "snd (applySizeLimit fs cfg True snaps alive s) = s"
  by (simp add: applySizeLimit_def Let_def sizeLoop_dry)

lemma rotateSnaps_dry: "snd (rotateSnaps fs cfg True now snaps s) = s"
  by (simp add: rotateSnaps_def split_beta applyKeepDays_dry applyKeepCount_dry applySizeLimit_dry)

lemma rotateRepo_dry: "rotateRepo fs repoDir cfg True now s = s"
  by (simp add: rotateRepo_def rotateSnaps_dry split: sum.splits)


text \<open>
  Claim C8. Rotation in dry-run mode never changes the disk, whatever the port, the
  snapshots on it and the configuration: the disk after \<open>rotateRepo\<close> with
  \<open>dryRun = true\<close> is the disk before, so a second run finds the same disk and leaves
  it unchanged too; and on a port that records the paths handed to \<open>RemoveAll\<close>,
  nothing is recorded: no time directory and no date directory is deleted.
\<close>

theorem C8_rotateRepo_dry_run_frame:
  "rotateRepo fs repoDir cfg True now s = s
   \<and> rotateRepo fs repoDir cfg True now' (rotateRepo fs repoDir cfg True now s) = s
   \<and> rotateRepo (recording fs) repoDir cfg True now (s, []) = (s, [])"
  by (simp add: rotateRepo_dry)

subsection \<open>The count rule\<close>

lemma keepCountLoop_allTrue:
  "0 \<le> r \<Longrightarrow> nat r \<le> length snaps \<Longrightarrow>
   keepCountLoop fs dryRun r snaps (replicate (length snaps) True) s =
     (replicate (nat r) False @ replicate (length snaps - nat r) True,
      if dryRun then s else fold (removeSnapshot fs) (take (nat r) snaps) s)"
proof (induction snaps arbitrary: r s)
  case Nil
  then show ?case by simp
next
  case (Cons sn snaps)
  show ?case
  proof (cases "0 < r")
    case False
    with Cons.prems show ?thesis by simp
  next
    case True
    then have n: "nat r = Suc (nat (r - 1))" by simp
    have "0 \<le> r - 1" "nat (r - 1) \<le> length snaps" using True Cons.prems by simp_all
    from Cons.IH [OF this] True show ?thesis
      by (simp add: n del: nat_diff_distrib')
  qed
qed

lemma keepDaysLoop_same:
  "fst (keepDaysLoop fs dryRun now limit snaps alive s) = alive \<Longrightarrow>
   snd (keepDaysLoop fs dryRun now limit snaps alive s) = s"
proof (induction snaps arbitrary: alive s)
  case Nil
  show ?case by simp
next
  case (Cons sn snaps)
  show ?case
  proof (cases alive)
    case Nil
    then show ?thesis by simp
  next
    case (Cons a as)
    with Cons.prems Cons.IH [of as s] show ?thesis
      by (auto simp: split_beta Let_def split: sum.splits if_splits)
  qed
qed

lemma sizeLoop_same:
  "fst (sizeLoop fs dryRun kbLimit totalKB snaps alive sizes s) = alive \<Longrightarrow>
   snd (sizeLoop fs dryRun kbLimit totalKB snaps alive sizes s) = s"
proof (induction snaps arbitrary: alive sizes s)
  case Nil
  show ?case by simp
next
  case (Cons sn snaps)
  show ?case
  proof (cases alive)
    case Nil
    then show ?thesis by simp
  next
    case a: (Cons a as)
    show ?thesis
    proof (cases sizes)
      case Nil
      with a show ?thesis by simp
    next
      case (Cons kb kbs)
      with a Cons.prems Cons.IH [of as kbs s] show ?thesis
        by (auto simp: split_beta Let_def split: if_splits)
    qed
  qed
qed

lemma applyKeepDays_same:
  "fst (applyKeepDays fs cfg dryRun snaps alive now s) = alive \<Longrightarrow>
   applyKeepDays fs cfg dryRun snaps alive now s = (alive, s)"
  using keepDaysLoop_same [of fs dryRun now _ snaps alive s]
  by (auto simp: applyKeepDays_def Let_def prod_eq_iff)

lemma applySizeLimit_same:
  "fst (applySizeLimit fs cfg dryRun snaps alive s) = alive \<Longrightarrow>
   applySizeLimit fs cfg dryRun snaps alive s = (alive, s)"
  using sizeLoop_same [of fs dryRun _ _ snaps alive _ s]
  by (auto simp: applySizeLimit_def Let_def prod_eq_iff)

lemma applyKeepCount_allTrue:
  assumes "0 < KeepCount cfg"
  shows "applyKeepCount fs cfg dryRun snaps (replicate (length snaps) True) s =
     (replicate (length snaps - nat (KeepCount cfg)) False
        @ replicate (min (length snaps) (nat (KeepCount cfg))) True,
      if dryRun then s
      else fold (removeSnapshot fs) (take (length snaps - nat (KeepCount cfg)) snaps) s)"
proof (cases "int (length snaps) \<le> KeepCount cfg")
  case True
  then have "length snaps - nat (KeepCount cfg) = 0" "min (length snaps) (nat (KeepCount cfg)) = length snaps"
    by simp_all
  with True assms show ?thesis
    by (simp add: applyKeepCount_def)
next
  case False
  let ?r = "int (length snaps) - KeepCount cfg"
  have r: "0 \<le> ?r" "nat ?r \<le> length snaps" "nat ?r = length snaps - nat (KeepCount cfg)"
    using False assms by simp_all
  have m: "length snaps - nat ?r = min (length snaps) (nat (KeepCount cfg))"
    using False assms by simp
  from keepCountLoop_allTrue [OF r(1) r(2), of fs dryRun s] False assms show ?thesis
    by (simp add: applyKeepCount_def r(3) m del: nat_diff_distrib')
qed

lemma listSnapshots_sorted:
  "listSnapshots fs repoDir s = Inr snaps \<Longrightarrow> sorted (map TimeDir snaps)"
  by (auto simp: listSnapshots_def split: sum.splits)


text \<open>
  Claim C3, as the code has it. For every list of snapshots on which rotation runs with
  \<open>keepCount = k > 0\<close>, if neither the age rule nor the size rule removes a snapshot,
  then rotation keeps alive exactly \<open>min(pre-count, k)\<close> snapshots, the removed ones
  being exactly the first \<open>pre-count - k\<close> of the list; outside a dry run
  \<open>removeSnapshot\<close> is applied to exactly these, in order; and the list that
  \<open>listSnapshots\<close> returns is sorted by \<open>TimeDir\<close>, so they are the oldest.
\<close>

theorem C3_count_rule_keeps_newest:
  assumes "0 < KeepCount cfg"
    and "ageRuleIdle fs cfg dryRun now snaps s"
    and "sizeRuleIdle fs cfg dryRun snaps s"
  shows "fst (rotateSnaps fs cfg dryRun now snaps s) =
           replicate (length snaps - nat (KeepCount cfg)) False
           @ replicate (min (length snaps) (nat (KeepCount cfg))) True
       \<and> length (filter (\<lambda>ok. ok) (fst (rotateSnaps fs cfg dryRun now snaps s))) =
           min (length snaps) (nat (KeepCount cfg))
       \<and> snd (rotateSnaps fs cfg dryRun now snaps s) =
           (if dryRun then s
            else fold (removeSnapshot fs) (take (length snaps - nat (KeepCount cfg)) snaps) s)
       \<and> (listSnapshots fs repoDir s = Inr snaps \<longrightarrow>
            sorted (map TimeDir snaps)
            \<and> rotateRepo fs repoDir cfg dryRun now s =
                (if dryRun then s
                 else fold (removeSnapshot fs) (take (length snaps - nat (KeepCount cfg)) snaps) s))"
proof -
  let ?all = "replicate (length snaps) True"
  let ?kept = "replicate (length snaps - nat (KeepCount cfg)) False
           @ replicate (min (length snaps) (nat (KeepCount cfg))) True"
  let ?disk = "if dryRun then s
            else fold (removeSnapshot fs) (take (length snaps - nat (KeepCount cfg)) snaps) s"
  have age: "applyKeepDays fs cfg dryRun snaps ?all now s = (?all, s)"
    using assms(2) by (intro applyKeepDays_same) (simp add: ageRuleIdle_def)
  have count: "applyKeepCount fs cfg dryRun snaps ?all s = (?kept, ?disk)"
    using assms(1) by (rule applyKeepCount_allTrue)
  have size: "applySizeLimit fs cfg dryRun snaps ?kept ?disk = (?kept, ?disk)"
    using assms(3) by (intro applySizeLimit_same) (simp add: sizeRuleIdle_def count)
  have rot: "rotateSnaps fs cfg dryRun now snaps s = (?kept, ?disk)"
    by (simp only: rotateSnaps_def Let_def age count size prod.case)
  have len: "length (filter (\<lambda>ok. ok) ?kept) = min (length snaps) (nat (KeepCount cfg))"
    by simp
  show ?thesis
    using rot len listSnapshots_sorted [of fs repoDir s snaps]
    by (simp add: rotateRepo_def)
qed

theorem C3_count_rule_keeps_newest_witness:
  "listSnapshots memfs ''/b/k'' (sampleDisk 5) = Inr sampleSnaps
   \<and> fst (rotateSnaps memfs (sampleConfig 0 2 0 0 True) False (400 * Second) sampleSnaps (sampleDisk 5))
       = [False, True, True]
   \<and> rotateRepo memfs ''/b/k'' (sampleConfig 0 2 0 0 True) False (400 * Second) (sampleDisk 5)
       = removeSnapshot memfs (hd sampleSnaps) (sampleDisk 5)"
proof -
  let ?cfg = "sampleConfig 0 2 0 0 True"
  have k: "0 < KeepCount ?cfg" "nat (KeepCount ?cfg) = 2"
    by (simp_all add: sampleConfig_def)
  have age: "ageRuleIdle memfs ?cfg False (400 * Second) sampleSnaps (sampleDisk 5)"
    by (simp add: ageRuleIdle_def applyKeepDays_def sampleConfig_def)
  have size: "sizeRuleIdle memfs ?cfg False sampleSnaps (sampleDisk 5)"
    by (simp add: sizeRuleIdle_def applySizeLimit_def sampleConfig_def split_beta)
  have list: "listSnapshots memfs ''/b/k'' (sampleDisk 5) = Inr sampleSnaps"
    by code_simp
  have n: "length sampleSnaps = 3"
    by (simp add: sampleSnaps_def)
  have t: "take (Suc 0) sampleSnaps = [hd sampleSnaps]"
    by (simp add: sampleSnaps_def)
  show ?thesis
    using C3_count_rule_keeps_newest [OF k(1) age size, of "''/b/k''"] list
    by (simp add: k(2) n t numeral_3_eq_3)
qed

text \<open>
  The claim as the specification words it fails when the size rule fires after the count
  rule: three snapshots of 1 GiB each, \<open>keepCount = 5\<close>, a limit of 1 GB and no age
  rule leave one snapshot on the disk, not \<open>min(3, 5) = 3\<close>.
\<close>

theorem C3_size_rule_counterexample:
  "listSnapshots memfs ''/b/k'' (sampleDisk 1073741824) = Inr sampleSnaps
   \<and> 0 < KeepCount (sampleConfig 0 5 1 0 False)
   \<and> ageRuleIdle memfs (sampleConfig 0 5 1 0 False) False (400 * Second) sampleSnaps (sampleDisk 1073741824)
   \<and> listSnapshots memfs ''/b/k''
        (rotateRepo memfs ''/b/k'' (sampleConfig 0 5 1 0 False) False (400 * Second) (sampleDisk 1073741824))
       = Inr [sampleSnapshot ''/b/k/2024-01-02'' ''080000-000000001'']
   \<and> min (length sampleSnaps) (nat (KeepCount (sampleConfig 0 5 1 0 False))) = 3"
  by code_simp

subsection \<open>The size rule\<close>

lemma wrap64_id: "- (2 ^ 63) \<le> x \<Longrightarrow> x < 2 ^ 63 \<Longrightarrow> wrap64 x = x"
  by (simp add: wrap64_def)

lemma kbLimitOf_exact:
  assumes "0 < MaxTotalGBPerRepo cfg" "MaxTotalGBPerRepo cfg < 2 ^ 42"
    and "- (2 ^ 52) < SizeMarginMB cfg" "SizeMarginMB cfg < 2 ^ 52"
  shows "kbLimitOf cfg = MaxTotalGBPerRepo cfg * 1048576 + SizeMarginMB cfg * 1024"
proof -
  let ?g = "MaxTotalGBPerRepo cfg" and ?m = "SizeMarginMB cfg"
  have g: "wrap64 ?g = ?g" using assms by (intro wrap64_id) simp_all
  have m: "wrap64 ?m = ?m" using assms by (intro wrap64_id) simp_all
  have g1: "wrap64 (?g * 1024) = ?g * 1024" using assms by (intro wrap64_id) simp_all
  have g2: "wrap64 (?g * 1024 * 1024) = ?g * 1024 * 1024" using assms by (intro wrap64_id) simp_all
  have m1: "wrap64 (?m * 1024) = ?m * 1024" using assms by (intro wrap64_id) simp_all
  have fin: "wrap64 (?g * 1024 * 1024 + ?m * 1024) = ?g * 1024 * 1024 + ?m * 1024"
    using assms by (intro wrap64_id) simp_all
  have "kbLimitOf cfg = ?g * 1024 * 1024 + ?m * 1024"
    by (simp only: kbLimitOf_def add64_def mul64_def g m g1 g2 m1 fin)
  then show ?thesis by simp
qed

lemma div1024_bounds:
  fixes x :: int
  assumes "0 \<le> x"
  shows "0 \<le> x div 1024" "x div 1024 \<le> x"
proof -
  show "0 \<le> x div 1024" using assms by (simp add: pos_imp_zdiv_nonneg_iff)
  have "x = 1024 * (x div 1024) + x mod 1024" by simp
  moreover have "0 \<le> x mod 1024" by simp
  moreover have "0 \<le> x div 1024" using assms by (simp add: pos_imp_zdiv_nonneg_iff)
  ultimately show "x div 1024 \<le> x" by linarith
qed

lemma walkTotal_foldl:
  assumes "\<forall>z \<in> set (regularSizes entries). 0 \<le> z" "0 \<le> acc"
    and "acc + sum_list (regularSizes entries) < 2 ^ 63"
  shows "foldl (\<lambda>total (path, info, err).
              if err \<noteq> None then total
              else (case info of
                      None \<Rightarrow> total
                    | Some i \<Rightarrow> if IsRegular i then add64 total (Size i) else total))
           acc entries = acc + sum_list (regularSizes entries)"
  using assms
proof (induction entries arbitrary: acc)
  case Nil
  then show ?case by (simp add: regularSizes_def)
next
  case (Cons e entries)
  obtain path info err where e: "e = (path, info, err)" by (cases e)
  have tail: "\<forall>z \<in> set (regularSizes entries). 0 \<le> z"
    using Cons.prems(1) by (simp add: regularSizes_def)
  have nonneg: "0 \<le> sum_list (regularSizes entries)"
    using tail by (intro sum_list_nonneg) simp
  show ?case
  proof (cases "err = None \<and> (\<exists>i. info = Some i \<and> IsRegular i)")
    case True
    then obtain i where i: "err = None" "info = Some i" "IsRegular i" by blast
    have r: "regularSizes (e # entries) = Size i # regularSizes entries"
      using i e by (simp add: regularSizes_def)
    have z: "0 \<le> Size i" using Cons.prems(1) r by simp
    have "add64 acc (Size i) = acc + Size i"
      unfolding add64_def using Cons.prems(2,3) z nonneg r by (intro wrap64_id) simp_all
    moreover have "acc + Size i + sum_list (regularSizes entries) < 2 ^ 63"
      using Cons.prems(3) r by simp
    ultimately show ?thesis
      using Cons.IH [OF tail, of "acc + Size i"] Cons.prems(2) z i e r
      by simp
  next
    case False
    then have r: "regularSizes (e # entries) = regularSizes entries"
      using e by (auto simp: regularSizes_def split: option.splits)
    show ?thesis
      using Cons.IH [OF tail Cons.prems(2)] Cons.prems(3) False e r
      by (auto split: option.splits)
  qed
qed

lemma dirSizeKB_round_up:
  assumes "Walk fs root s = (entries, werr)"
    and "\<forall>z \<in> set (regularSizes entries). 0 \<le> z"
    and "sum_list (regularSizes entries) + 1023 < 2 ^ 63"
  shows "fst (dirSizeKB fs root s) = (sum_list (regularSizes entries) + 1023) div 1024"
proof -
  let ?b = "sum_list (regularSizes entries)"
  have nonneg: "0 \<le> ?b" using assms(2) by (intro sum_list_nonneg) simp
  have "walkTotal entries = 0 + ?b"
    unfolding walkTotal_def using assms(2,3) nonneg by (intro walkTotal_foldl) simp_all
  then have t: "walkTotal entries = ?b" by simp
  have a: "add64 ?b 1023 = ?b + 1023"
    unfolding add64_def using assms(3) nonneg by (intro wrap64_id) simp_all
  have d: "0 \<le> (?b + 1023) div 1024" "(?b + 1023) div 1024 < 2 ^ 63"
    using nonneg assms(3) div1024_bounds [of "?b + 1023"] by simp_all
  have sg: "sgn (?b + 1023) = 1" "\<bar>?b + 1023\<bar> = ?b + 1023"
    using nonneg by simp_all
  have "quot64 (?b + 1023) 1024 = wrap64 ((?b + 1023) div 1024)"
    by (simp only: quot64_def sg) simp
  also have "\<dots> = (?b + 1023) div 1024"
    using d by (intro wrap64_id) simp_all
  finally have q: "quot64 (?b + 1023) 1024 = (?b + 1023) div 1024" .
  show ?thesis
    by (simp add: dirSizeKB_def assms(1) t a q)
qed


lemma livingKB_nonneg: "\<forall>kb \<in> set sizes. 0 \<le> kb \<Longrightarrow> 0 \<le> livingKB alive sizes"
  by (induction alive sizes rule: livingKB.induct) auto

lemma sumLiving_exact:
  "\<forall>kb \<in> set sizes. 0 \<le> kb \<Longrightarrow> 0 \<le> acc \<Longrightarrow> acc + livingKB alive sizes < 2 ^ 63 \<Longrightarrow>
   sumLiving alive sizes acc = acc + livingKB alive sizes"
proof (induction alive sizes arbitrary: acc rule: livingKB.induct)
  case (1 a alive kb sizes)
  have tail: "\<forall>kb \<in> set sizes. 0 \<le> kb" and kb: "0 \<le> kb"
    using "1.prems"(1) by simp_all
  have rest: "0 \<le> livingKB alive sizes"
    using tail by (rule livingKB_nonneg)
  show ?case
  proof (cases a)
    case True
    have "add64 acc kb = acc + kb"
      unfolding add64_def using "1.prems" True kb rest by (intro wrap64_id) simp_all
    then show ?thesis
      using "1.IH" [OF tail, of "acc + kb"] "1.prems" True kb by simp
  next
    case False
    then show ?thesis
      using "1.IH" [OF tail, of acc] "1.prems" by simp
  qed
qed simp_all

lemma sizeLoop_spec:
  assumes "length alive = length snaps" "length sizes = length snaps"
    and "\<forall>kb \<in> set sizes. 0 \<le> kb" "totalKB = livingKB alive sizes" "totalKB < 2 ^ 63"
  shows "\<exists>m \<le> length snaps.
           sizeLoop fs dryRun kbLimit totalKB snaps alive sizes s =
             (replicate m False @ drop m alive,
              if dryRun then s
              else fold (removeSnapshot fs) (livingSnaps (take m snaps) (take m alive)) s)
         \<and> (livingKB (replicate m False @ drop m alive) sizes \<le> kbLimit
              \<or> True \<notin> set (replicate m False @ drop m alive))
         \<and> (\<forall>j < m. alive ! j \<longrightarrow> kbLimit < livingKB (replicate j False @ drop j alive) sizes)"
  using assms
proof (induction snaps arbitrary: alive sizes totalKB s)
  case Nil
  then show ?case by simp
next
  case (Cons sn snaps)
  from Cons.prems(1) obtain a as where alive: "alive = a # as" "length as = length snaps"
    by (cases alive) auto
  from Cons.prems(2) obtain kb kbs where sizes: "sizes = kb # kbs" "length kbs = length snaps"
    by (cases sizes) auto
  have tail: "\<forall>kb \<in> set kbs. 0 \<le> kb" and kb: "0 \<le> kb"
    using Cons.prems(3) sizes by simp_all
  have rest: "0 \<le> livingKB as kbs"
    using tail by (rule livingKB_nonneg)
  show ?case
  proof (cases "kbLimit < totalKB")
    case False
    then have "sizeLoop fs dryRun kbLimit totalKB (sn # snaps) alive sizes s = (alive, s)"
      by (simp add: alive sizes)
    moreover have "livingKB alive sizes \<le> kbLimit"
      using False Cons.prems(4) by simp
    ultimately show ?thesis
      by (intro exI [of _ 0]) simp
  next
    case over: True
    show ?thesis
    proof (cases a)
      case False
      have t: "totalKB = livingKB as kbs"
        using Cons.prems(4) False by (simp add: alive sizes)
      from Cons.IH [OF alive(2) sizes(2) tail t Cons.prems(5), of s]
      obtain m where m: "m \<le> length snaps"
        "sizeLoop fs dryRun kbLimit totalKB snaps as kbs s =
             (replicate m False @ drop m as,
              if dryRun then s
              else fold (removeSnapshot fs) (livingSnaps (take m snaps) (take m as)) s)"
        "livingKB (replicate m False @ drop m as) kbs \<le> kbLimit
              \<or> True \<notin> set (replicate m False @ drop m as)"
        "\<forall>j < m. as ! j \<longrightarrow> kbLimit < livingKB (replicate j False @ drop j as) kbs"
        by blast
      have step: "sizeLoop fs dryRun kbLimit totalKB (sn # snaps) alive sizes s =
             (replicate (Suc m) False @ drop (Suc m) alive,
              if dryRun then s
              else fold (removeSnapshot fs) (livingSnaps (take (Suc m) (sn # snaps)) (take (Suc m) alive)) s)"
        using over False m(2) by (simp add: alive sizes)
      have fin: "livingKB (replicate (Suc m) False @ drop (Suc m) alive) sizes \<le> kbLimit
              \<or> True \<notin> set (replicate (Suc m) False @ drop (Suc m) alive)"
        using m(3) by (simp add: alive sizes)
      have need: "\<forall>j < Suc m. alive ! j \<longrightarrow> kbLimit < livingKB (replicate j False @ drop j alive) sizes"
      proof (intro allI impI)
        fix j assume j: "j < Suc m" "alive ! j"
        then obtain j' where j': "j = Suc j'" "j' < m" "as ! j'"
          using False by (cases j) (auto simp: alive)
        with m(4) show "kbLimit < livingKB (replicate j False @ drop j alive) sizes"
          by (simp add: alive sizes)
      qed
      from m(1) have "Suc m \<le> length (sn # snaps)" by simp
      with step fin need show ?thesis by blast
    next
      case True
      have t: "totalKB = kb + livingKB as kbs"
        using Cons.prems(4) True by (simp add: alive sizes)
      have sub: "sub64 totalKB kb = livingKB as kbs"
        unfolding sub64_def using t rest kb Cons.prems(5) by (simp add: wrap64_id)
      have bound: "livingKB as kbs < 2 ^ 63"
        using t kb Cons.prems(5) by simp
      let ?s1 = "if dryRun then s else removeSnapshot fs sn s"
      from Cons.IH [OF alive(2) sizes(2) tail refl bound, of ?s1]
      obtain m where m: "m \<le> length snaps"
        "sizeLoop fs dryRun kbLimit (livingKB as kbs) snaps as kbs ?s1 =
             (replicate m False @ drop m as,
              if dryRun then ?s1
              else fold (removeSnapshot fs) (livingSnaps (take m snaps) (take m as)) ?s1)"
        "livingKB (replicate m False @ drop m as) kbs \<le> kbLimit
              \<or> True \<notin> set (replicate m False @ drop m as)"
        "\<forall>j < m. as ! j \<longrightarrow> kbLimit < livingKB (replicate j False @ drop j as) kbs"
        by blast
      have step: "sizeLoop fs dryRun kbLimit totalKB (sn # snaps) alive sizes s =
             (replicate (Suc m) False @ drop (Suc m) alive,
              if dryRun then s
              else fold (removeSnapshot fs) (livingSnaps (take (Suc m) (sn # snaps)) (take (Suc m) alive)) s)"
        using over True m(2) by (simp add: alive sizes sub)
      have fin: "livingKB (replicate (Suc m) False @ drop (Suc m) alive) sizes \<le> kbLimit
              \<or> True \<notin> set (replicate (Suc m) False @ drop (Suc m) alive)"
        using m(3) by (simp add: alive sizes)
      have need: "\<forall>j < Suc m. alive ! j \<longrightarrow> kbLimit < livingKB (replicate j False @ drop j alive) sizes"
      proof (intro allI impI)
        fix j assume j: "j < Suc m" "alive ! j"
        show "kbLimit < livingKB (replicate j False @ drop j alive) sizes"
        proof (cases j)
          case 0
          then show ?thesis using over Cons.prems(4) by simp
        next
          case (Suc j')
          with j m(4) show ?thesis by (simp add: alive sizes)
        qed
      qed
      from m(1) have "Suc m \<le> length (sn # snaps)" by simp
      with step fin need show ?thesis by blast
    qed
  qed
qed

lemma measureSizes_length:
  "length alive = length snaps \<Longrightarrow> length (measureSizes fs snaps alive s) = length snaps"
  by (induction fs snaps alive s rule: measureSizes.induct) auto


lemma measureSizes_nth:
  "length alive = length snaps \<Longrightarrow> i < length snaps \<Longrightarrow> alive ! i \<Longrightarrow>
   measureSizes fs snaps alive s ! i = fst (dirSizeKB fs (TimeDir (snaps ! i)) s)"
proof (induction fs snaps alive s arbitrary: i rule: measureSizes.induct)
  case (1 fs sn snaps a alive s)
  then show ?case by (cases i) auto
qed simp_all

lemma round_up_bounds:
  fixes b :: int
  shows "b \<le> 1024 * ((b + 1023) div 1024)" "1024 * ((b + 1023) div 1024) < b + 1024"
proof -
  have "b + 1023 = 1024 * ((b + 1023) div 1024) + (b + 1023) mod 1024" by simp
  moreover have "0 \<le> (b + 1023) mod 1024" "(b + 1023) mod 1024 < 1024" by simp_all
  ultimately show "b \<le> 1024 * ((b + 1023) div 1024)" "1024 * ((b + 1023) div 1024) < b + 1024"
    by linarith+
qed

text \<open>
  Claim C6, as the code has it. When \<open>maxTotalGB > 0\<close> and \<open>noSize\<close> is false, the size
  rule computes the limit in KiB in 64-bit arithmetic, which is exactly
  \<open>maxTotalGB * 1,048,576 + sizeMarginMB * 1024\<close> (a negative margin lowers it) while
  the values stay in range; it measures each living snapshot as the sum of the sizes of
  its regular files rounded up to whole KiB; and it removes the first living snapshots
  of the list, one at a time and only while the total is above the limit, until the
  remaining total is at most the limit or no living snapshot is left.
\<close>

theorem C6_size_rule:
  "(0 < MaxTotalGBPerRepo cfg \<and> MaxTotalGBPerRepo cfg < 2 ^ 42
      \<and> - (2 ^ 52) < SizeMarginMB cfg \<and> SizeMarginMB cfg < 2 ^ 52
     \<longrightarrow> kbLimitOf cfg = MaxTotalGBPerRepo cfg * 1048576 + SizeMarginMB cfg * 1024)
   \<and> (Walk fs root s = (entries, werr) \<and> (\<forall>z \<in> set (regularSizes entries). 0 \<le> z)
        \<and> sum_list (regularSizes entries) + 1023 < 2 ^ 63
       \<longrightarrow> fst (dirSizeKB fs root s) = (sum_list (regularSizes entries) + 1023) div 1024
           \<and> sum_list (regularSizes entries) \<le> 1024 * fst (dirSizeKB fs root s)
           \<and> 1024 * fst (dirSizeKB fs root s) < sum_list (regularSizes entries) + 1024)
   \<and> (0 < MaxTotalGBPerRepo cfg \<and> \<not> NoSize cfg \<and> length alive = length snaps
        \<and> (\<forall>kb \<in> set (measureSizes fs snaps alive s). 0 \<le> kb)
        \<and> livingKB alive (measureSizes fs snaps alive s) < 2 ^ 63
       \<longrightarrow> (\<forall>i < length snaps. alive ! i \<longrightarrow>
              measureSizes fs snaps alive s ! i = fst (dirSizeKB fs (TimeDir (snaps ! i)) s))
           \<and> (\<exists>m \<le> length snaps.
                applySizeLimit fs cfg dryRun snaps alive s =
                  (replicate m False @ drop m alive,
                   if dryRun then s
                   else fold (removeSnapshot fs) (livingSnaps (take m snaps) (take m alive)) s)
                \<and> (livingKB (replicate m False @ drop m alive) (measureSizes fs snaps alive s)
                      \<le> kbLimitOf cfg
                    \<or> True \<notin> set (replicate m False @ drop m alive))
                \<and> (\<forall>j < m. alive ! j \<longrightarrow>
                      kbLimitOf cfg
                        < livingKB (replicate j False @ drop j alive) (measureSizes fs snaps alive s))))"
proof (intro conjI impI)
  assume "0 < MaxTotalGBPerRepo cfg \<and> MaxTotalGBPerRepo cfg < 2 ^ 42
      \<and> - (2 ^ 52) < SizeMarginMB cfg \<and> SizeMarginMB cfg < 2 ^ 52"
  then show "kbLimitOf cfg = MaxTotalGBPerRepo cfg * 1048576 + SizeMarginMB cfg * 1024"
    by (intro kbLimitOf_exact) simp_all
next
  assume w: "Walk fs root s = (entries, werr) \<and> (\<forall>z \<in> set (regularSizes entries). 0 \<le> z)
        \<and> sum_list (regularSizes entries) + 1023 < 2 ^ 63"
  then have r: "fst (dirSizeKB fs root s) = (sum_list (regularSizes entries) + 1023) div 1024"
    by (intro dirSizeKB_round_up [of fs root s entries werr]) simp_all
  then show "fst (dirSizeKB fs root s) = (sum_list (regularSizes entries) + 1023) div 1024" .
  show "sum_list (regularSizes entries) \<le> 1024 * fst (dirSizeKB fs root s)"
    and "1024 * fst (dirSizeKB fs root s) < sum_list (regularSizes entries) + 1024"
    unfolding r by (rule round_up_bounds)+
next
  assume a: "0 < MaxTotalGBPerRepo cfg \<and> \<not> NoSize cfg \<and> length alive = length snaps
        \<and> (\<forall>kb \<in> set (measureSizes fs snaps alive s). 0 \<le> kb)
        \<and> livingKB alive (measureSizes fs snaps alive s) < 2 ^ 63"
  let ?sizes = "measureSizes fs snaps alive s"
  have len: "length alive = length snaps" "length ?sizes = length snaps"
    using a by (simp_all add: measureSizes_length)
  have nonneg: "\<forall>kb \<in> set ?sizes. 0 \<le> kb" using a by simp
  have total: "sumLiving alive ?sizes 0 = livingKB alive ?sizes"
    using sumLiving_exact [OF nonneg, of 0 alive] a by simp
  have bound: "livingKB alive ?sizes < 2 ^ 63" using a by simp
  show "\<forall>i < length snaps. alive ! i \<longrightarrow>
              ?sizes ! i = fst (dirSizeKB fs (TimeDir (snaps ! i)) s)"
    using len(1) by (simp add: measureSizes_nth)
  have run: "applySizeLimit fs cfg dryRun snaps alive s =
      sizeLoop fs dryRun (kbLimitOf cfg) (livingKB alive ?sizes) snaps alive ?sizes s"
    using a by (simp add: applySizeLimit_def Let_def total)
  show "\<exists>m \<le> length snaps.
                applySizeLimit fs cfg dryRun snaps alive s =
                  (replicate m False @ drop m alive,
                   if dryRun then s
                   else fold (removeSnapshot fs) (livingSnaps (take m snaps) (take m alive)) s)
                \<and> (livingKB (replicate m False @ drop m alive) ?sizes \<le> kbLimitOf cfg
                    \<or> True \<notin> set (replicate m False @ drop m alive))
                \<and> (\<forall>j < m. alive ! j \<longrightarrow>
                      kbLimitOf cfg < livingKB (replicate j False @ drop j alive) ?sizes)"
    unfolding run by (rule sizeLoop_spec [OF len nonneg refl bound])
qed


theorem C6_size_rule_witness:
  "kbLimitOf (sampleConfig 0 0 1 0 False) = 1048576
   \<and> fst (dirSizeKB memfs ''/b/k/2024-01-01/090000-000000001'' (sampleDisk 1073741824)) = 1048576
   \<and> fst (applySizeLimit memfs (sampleConfig 0 0 1 0 False) False sampleSnaps [True, True, True]
            (sampleDisk 1073741824)) = [False, False, True]
   \<and> (\<exists>m \<le> length sampleSnaps.
         applySizeLimit memfs (sampleConfig 0 0 1 0 False) False sampleSnaps [True, True, True]
             (sampleDisk 1073741824) =
           (replicate m False @ drop m [True, True, True],
            fold (removeSnapshot memfs) (livingSnaps (take m sampleSnaps) (take m [True, True, True]))
              (sampleDisk 1073741824)))"
proof -
  let ?cfg = "sampleConfig 0 0 1 0 False"
  let ?root = "''/b/k/2024-01-01/090000-000000001''"
  let ?disk = "sampleDisk 1073741824"
  let ?entries = "fst (Walk memfs ?root ?disk)"
  let ?werr = "snd (Walk memfs ?root ?disk)"
  have h1: "0 < MaxTotalGBPerRepo ?cfg \<and> MaxTotalGBPerRepo ?cfg < 2 ^ 42
      \<and> - (2 ^ 52) < SizeMarginMB ?cfg \<and> SizeMarginMB ?cfg < 2 ^ 52"
    by (simp add: sampleConfig_def)
  have h2: "Walk memfs ?root ?disk = (?entries, ?werr)
        \<and> (\<forall>z \<in> set (regularSizes ?entries). 0 \<le> z)
        \<and> sum_list (regularSizes ?entries) + 1023 < 2 ^ 63"
    by code_simp
  have h3: "0 < MaxTotalGBPerRepo ?cfg \<and> \<not> NoSize ?cfg
        \<and> length [True, True, True] = length sampleSnaps
        \<and> (\<forall>kb \<in> set (measureSizes memfs sampleSnaps [True, True, True] ?disk). 0 \<le> kb)
        \<and> livingKB [True, True, True] (measureSizes memfs sampleSnaps [True, True, True] ?disk) < 2 ^ 63"
    by code_simp
  have v: "MaxTotalGBPerRepo ?cfg * 1048576 + SizeMarginMB ?cfg * 1024 = 1048576"
    "(sum_list (regularSizes ?entries) + 1023) div 1024 = 1048576"
    "fst (applySizeLimit memfs ?cfg False sampleSnaps [True, True, True] ?disk) = [False, False, True]"
    by code_simp+
  note main = C6_size_rule [of ?cfg memfs ?root ?disk ?entries ?werr "[True, True, True]" sampleSnaps False]
  from main h1 have "kbLimitOf ?cfg = MaxTotalGBPerRepo ?cfg * 1048576 + SizeMarginMB ?cfg * 1024"
    by blast
  moreover from main h2
  have "fst (dirSizeKB memfs ?root ?disk) = (sum_list (regularSizes ?entries) + 1023) div 1024"
    by blast
  moreover from main h3
  have "\<exists>m \<le> length sampleSnaps.
         applySizeLimit memfs ?cfg False sampleSnaps [True, True, True] ?disk =
           (replicate m False @ drop m [True, True, True],
            fold (removeSnapshot memfs) (livingSnaps (take m sampleSnaps) (take m [True, True, True])) ?disk)"
    by (simp only: if_False) blast
  ultimately show ?thesis
    using v by simp
qed

text \<open>
  The claim as the specification words it fails for a limit below zero: with
  \<open>maxTotalGB = 1\<close> and \<open>sizeMarginMB = -2048\<close> the limit is \<open>-1,048,576\<close> KiB, every
  snapshot is removed, and the remaining total, zero, is still above the limit.
\<close>

theorem C6_negative_limit_counterexample:
  "0 < MaxTotalGBPerRepo (sampleConfig 0 0 1 (- 2048) False)
   \<and> \<not> NoSize (sampleConfig 0 0 1 (- 2048) False)
   \<and> kbLimitOf (sampleConfig 0 0 1 (- 2048) False) = - 1048576
   \<and> fst (applySizeLimit memfs (sampleConfig 0 0 1 (- 2048) False) False sampleSnaps
            [True, True, True] (sampleDisk 1)) = [False, False, False]
   \<and> \<not> livingKB [False, False, False] (measureSizes memfs sampleSnaps [True, True, True] (sampleDisk 1))
         \<le> kbLimitOf (sampleConfig 0 0 1 (- 2048) False)"
  by code_simp


section \<open>Properties of the snapshot reservation\<close>

lemma decimalNat_small: "n < 10 \<Longrightarrow> decimalNat n = [digitChar n]"
  by (simp add: decimalNat.simps)

lemma decimalNat_two: "10 \<le> n \<Longrightarrow> n < 100 \<Longrightarrow> decimalNat n = [digitChar (n div 10), digitChar (n mod 10)]"
  by (subst decimalNat.simps) (simp add: decimalNat_small)

lemma padZero_two: "i < 100 \<Longrightarrow> padZero 2 i = twoDigits i"
proof (cases "i < 10")
  case True
  then have "i div 10 = 0" "i mod 10 = i" by simp_all
  moreover have "digitChar 0 = CHR ''0''" by code_simp
  ultimately show ?thesis
    using True by (simp add: padZero_def twoDigits_def decimalNat_small)
next
  case False
  assume "i < 100"
  with False show ?thesis
    by (simp add: padZero_def twoDigits_def decimalNat_two)
qed

lemma candidateNames_timeDirName:
  "candidateNames baseTimeDir = map (timeDirName baseTimeDir) [0..<100]"
proof -
  have "[0..<100] = 0 # [1..<100]"
    by (simp add: upt_conv_Cons)
  moreover have "map (timeDirName baseTimeDir) [1..<100] = map (\<lambda>i. baseTimeDir @ ''-'' @ twoDigits i) [1..<100]"
    by (rule map_cong) (auto simp: timeDirName_def padZero_two)
  ultimately show ?thesis
    by (simp add: candidateNames_def timeDirName_def)
qed

lemma uniqueDirLoop_reserveFirst:
  "i \<le> 100 \<Longrightarrow>
   uniqueDirLoop fs repoDir dateDir baseTimeDir i s =
     reserveFirst fs (map (\<lambda>j. Join fs [repoDir, dateDir, timeDirName baseTimeDir j]) [i..<100]) s"
proof (induction "100 - i" arbitrary: i s)
  case 0
  then have "i = 100" by simp
  then show ?case by (simp add: uniqueDirLoop.simps)
next
  case (Suc n)
  then have i: "i < 100" "Suc i \<le> 100" "n = 100 - Suc i" by simp_all
  have u: "[i..<100] = i # [Suc i..<100]"
    using i(1) by (simp add: upt_conv_Cons)
  have IH: "uniqueDirLoop fs repoDir dateDir baseTimeDir (Suc i) s' =
     reserveFirst fs (map (\<lambda>j. Join fs [repoDir, dateDir, timeDirName baseTimeDir j]) [Suc i..<100]) s'" for s'
    using Suc.hyps(1) [OF i(3) i(2)] .
  show ?case
    by (subst uniqueDirLoop.simps)
       (simp add: i(1) u IH Let_def split: prod.splits option.splits)
qed


lemma reserveFirst_member:
  "fst (reserveFirst fs candidates s) = Inr p \<Longrightarrow> p \<in> set candidates"
  by (induction candidates arbitrary: s)
     (auto split: prod.splits option.splits if_splits)

text \<open>
  Claim C4. After ensuring the date directory, \<open>createUniqueSnapshotDir\<close> is the
  reservation over the hundred candidate names in order: the base name
  \<open>HHMMSS-NNNNNNNNN\<close> first, then the suffixes \<open>-01\<close> to \<open>-99\<close>; for each candidate
  the directory is created exclusively (the next candidate is tried when it exists
  already), then \<open>.reserve\<close> inside it (when that exists already the candidate is
  removed and the next one tried); the first candidate for which both creations succeed
  is returned, and the reservation fails when the hundred candidates are used up. A path
  that is returned is one of the hundred candidates.
\<close>

theorem C4_reservation_order:
  "createUniqueSnapshotDir fs repoDir dateDir now s =
     (case CreateDir fs (Join fs [repoDir, dateDir]) 493 s of
        (Some err, s1) \<Rightarrow> (Inl err, s1)
      | (None, s1) \<Rightarrow>
          reserveFirst fs
            (map (\<lambda>name. Join fs [repoDir, dateDir, name]) (candidateNames (formatTimeDir now))) s1)
   \<and> length (candidateNames (formatTimeDir now)) = 100
   \<and> (fst (createUniqueSnapshotDir fs repoDir dateDir now s) = Inr p \<longrightarrow>
        p \<in> set (map (\<lambda>name. Join fs [repoDir, dateDir, name]) (candidateNames (formatTimeDir now))))"
proof -
  let ?cands = "map (\<lambda>name. Join fs [repoDir, dateDir, name]) (candidateNames (formatTimeDir now))"
  have loop: "uniqueDirLoop fs repoDir dateDir (formatTimeDir now) 0 s1 = reserveFirst fs ?cands s1" for s1
    using uniqueDirLoop_reserveFirst [of 0 fs repoDir dateDir "formatTimeDir now" s1]
    by (simp add: candidateNames_timeDirName comp_def)
  have eq: "createUniqueSnapshotDir fs repoDir dateDir now s =
     (case CreateDir fs (Join fs [repoDir, dateDir]) 493 s of
        (Some err, s1) \<Rightarrow> (Inl err, s1)
      | (None, s1) \<Rightarrow> reserveFirst fs ?cands s1)"
    by (simp add: createUniqueSnapshotDir_def loop split: prod.splits option.splits)
  have len: "length (candidateNames (formatTimeDir now)) = 100"
    by (simp add: candidateNames_def)
  have mem: "p \<in> set ?cands" if "fst (createUniqueSnapshotDir fs repoDir dateDir now s) = Inr p"
    using that reserveFirst_member [of fs ?cands _ p]
    by (auto simp: eq split: prod.splits option.splits)
  from eq len mem show ?thesis by blast
qed

theorem C4_reservation_order_witness:
  "fst (createUniqueSnapshotDir memfs ''/b/k'' ''2024-01-02'' sampleNow takenDisk)
     = Inr ''/b/k/2024-01-02/090000-000000042-02''
   \<and> ''/b/k/2024-01-02/090000-000000042-02''
       \<in> set (map (\<lambda>name. Join memfs [''/b/k'', ''2024-01-02'', name])
                 (candidateNames (formatTimeDir sampleNow)))"
proof -
  have r: "fst (createUniqueSnapshotDir memfs ''/b/k'' ''2024-01-02'' sampleNow takenDisk)
     = Inr ''/b/k/2024-01-02/090000-000000042-02''"
    by code_simp
  with C4_reservation_order [of memfs "''/b/k''" "''2024-01-02''" sampleNow takenDisk
      "''/b/k/2024-01-02/090000-000000042-02''"]
  show ?thesis by blast
qed


section \<open>Properties of the backup flow\<close>

lemma noteError_noted: "errorsNoted (noteError fs path err acc s1)"
  by (cases acc) (simp add: errorsNoted_def noteError_def recordCopyError_def Let_def)

lemma noteError_partial:
  "PartialSuccess (fst (noteError fs path err acc s1)) \<and> fst (snd (noteError fs path err acc s1)) \<noteq> []"
  by (cases acc) (simp add: noteError_def recordCopyError_def Let_def)

lemma copyDirEntry_noted: "errorsNoted acc \<Longrightarrow> errorsNoted (copyDirEntry fs path target info acc)"
proof -
  assume a: "errorsNoted acc"
  obtain result copyErrors s where acc: "acc = (result, copyErrors, s)"
    by (cases acc)
  have keep: "errorsNoted (result, copyErrors, s')" for s'
    using a by (simp add: acc errorsNoted_def)
  have keep2: "errorsNoted (result\<lparr>CopiedFiles := n\<rparr>, copyErrors, s')" for s' n
    using a by (simp add: acc errorsNoted_def)
  show ?thesis
    unfolding copyDirEntry_def acc
    by (simp add: Let_def keep keep2 noteError_noted split: prod.splits option.splits sum.splits)
qed

lemma walkStep_noted: "errorsNoted acc \<Longrightarrow> errorsNoted (walkStep fs src dst acc entry)"
  by (cases entry)
     (simp add: walkStep_def Let_def noteError_noted copyDirEntry_noted split: option.splits sum.splits)

lemma foldl_noted:
  assumes "\<And>acc x. errorsNoted acc \<Longrightarrow> errorsNoted (f acc x)"
  shows "errorsNoted acc \<Longrightarrow> errorsNoted (foldl f acc xs)"
  by (induction xs arbitrary: acc) (simp_all add: assms)

lemma copyDirRecursive_clean:
  assumes "\<not> PartialSuccess result" "copyDirRecursive fs src dst result s = (None, result1, s1)"
  shows "\<not> PartialSuccess result1"
proof -
  let ?acc = "foldl (walkStep fs src dst) (result, [], s) (fst (Walk fs src s))"
  have "errorsNoted (result, [], s)"
    using assms(1) by (simp add: errorsNoted_def)
  then have n: "errorsNoted ?acc"
    by (rule foldl_noted [rotated]) (rule walkStep_noted)
  from assms(2) have "fst (snd ?acc) = []" "result1 = fst ?acc"
    by (auto simp: copyDirRecursive_def Let_def split_beta split: if_splits)
  with n show ?thesis
    by (simp add: errorsNoted_def)
qed

lemma copySelectedPath_partial:
  "PartialSuccess (fst (snd (copySelectedPath fs srcRoot dstRoot rel result s))) = PartialSuccess result"
  by (simp add: copySelectedPath_def Let_def split: sum.splits prod.splits option.splits)

lemma selectedStep_noted: "errorsNoted acc \<Longrightarrow> errorsNoted (selectedStep fs srcRoot dstRoot acc rel)"
proof -
  assume a: "errorsNoted acc"
  obtain result copyErrors s where acc: "acc = (result, copyErrors, s)"
    by (cases acc)
  obtain e r1 s1 where c: "copySelectedPath fs srcRoot dstRoot rel result s = (e, r1, s1)"
    by (cases "copySelectedPath fs srcRoot dstRoot rel result s")
  have "PartialSuccess r1 = PartialSuccess result"
    using copySelectedPath_partial [of fs srcRoot dstRoot rel result s] c by simp
  then have "errorsNoted (r1, copyErrors, s1)"
    using a by (simp add: acc errorsNoted_def)
  then show ?thesis
    by (cases e) (simp_all add: selectedStep_def acc c noteError_noted)
qed

lemma copySelectedFiles_clean:
  assumes "\<not> PartialSuccess result" "copySelectedFiles fs paths srcRoot dstRoot result s = (None, result1, s1)"
  shows "\<not> PartialSuccess result1"
proof (cases "paths = []")
  case True
  with assms show ?thesis by (simp add: copySelectedFiles_def)
next
  case False
  let ?acc = "foldl (selectedStep fs srcRoot dstRoot) (result, [], s) paths"
  have "errorsNoted (result, [], s)"
    using assms(1) by (simp add: errorsNoted_def)
  then have n: "errorsNoted ?acc"
    by (rule foldl_noted [rotated]) (rule selectedStep_noted)
  from assms(2) False have "fst (snd ?acc) = []" "result1 = fst ?acc"
    by (auto simp: copySelectedFiles_def Let_def split_beta split: if_splits)
  with n show ?thesis
    by (simp add: errorsNoted_def)
qed

lemma copyRepoSnapshot_clean:
  assumes "\<not> PartialSuccess result"
    and "copyRepoSnapshot fs git pathMatch repoRoot targetPath result s = (None, result1, s1)"
  shows "\<not> PartialSuccess result1"
  using assms(2)
  by (auto simp: copyRepoSnapshot_def Let_def
           split: sum.splits prod.splits option.splits
           dest: copyDirRecursive_clean [OF assms(1)] copySelectedFiles_clean [rotated])


text \<open>
  The last branch of \<open>handleBackupFlow\<close>, which returns the result together with
  \<open>ErrCritical\<close> when \<open>PartialSuccess\<close> is set, is never taken: whenever a result is
  returned there is no error and \<open>PartialSuccess\<close> is not set.
\<close>

lemma handleBackupFlow_result_clean:
  assumes "fst (handleBackupFlow fs git pathMatch cfg repoRoot repoDir now later cancelled s) = (Some result, err)"
  shows "err = None \<and> \<not> PartialSuccess result"
proof -
  have e: "\<not> PartialSuccess emptyResult"
    by (simp add: emptyResult_def)
  show ?thesis
    using assms
    by (auto simp: handleBackupFlow_def Let_def
             split: if_splits sum.splits prod.splits option.splits
             dest: copyRepoSnapshot_clean [OF e])
qed

text \<open>An error of the copy, of Phase E as of Phase A, ends the flow with \<open>ErrCritical\<close>,
  no result, and the snapshot directory removed by the cleanup.\<close>

lemma handleBackupFlow_copy_error:
  assumes "\<not> cancelled"
    and "createUniqueSnapshotDir fs repoDir (formatDate now) now s = (Inr targetPath, s1)"
    and "WriteFile fs (Join fs [targetPath, ''.partial'']) [] 420 s1 = (None, s2)"
    and "copyRepoSnapshot fs git pathMatch repoRoot targetPath emptyResult s2 = (Some err, result, s3)"
  shows "handleBackupFlow fs git pathMatch cfg repoRoot repoDir now later cancelled s =
           ((None, Some ErrCritical), cleanupPartial fs targetPath s3)"
  using assms by (simp add: handleBackupFlow_def Let_def)

text \<open>
  Claim C1, on the code. The repository \<open>/r\<close> has the untracked file \<open>keep.txt\<close>; Git
  also lists \<open>gone.txt\<close>, which is no longer there. Phase A copies \<open>.git\<close> without
  error; in Phase E the \<open>lstat\<close> of \<open>gone.txt\<close> fails, one skipped file is counted and
  \<open>PartialSuccess\<close> is set; and then \<open>copySelectedFiles\<close> returns an error, so the flow
  returns \<open>ErrCritical\<close> without a result, \<open>.done\<close> is never written, and the cleanup
  removes the snapshot directory and its date directory: the disk is as before the call.
\<close>

theorem C1_phase_E_failure_aborts:
  "fst (createUniqueSnapshotDir memfs ''/b/k'' ''2024-01-02'' sampleNow repoDisk)
     = Inr ''/b/k/2024-01-02/090000-000000042''
   \<and> fst (copyDirRecursive memfs ''/r/.git'' ''/b/k/2024-01-02/090000-000000042/.git'' emptyResult
            (snd (createUniqueSnapshotDir memfs ''/b/k'' ''2024-01-02'' sampleNow repoDisk))) = None
   \<and> (case copyRepoSnapshot memfs (sampleGit [''gone.txt'', ''keep.txt'']) globMatch ''/r''
              ''/b/k/2024-01-02/090000-000000042'' emptyResult
              (snd (createUniqueSnapshotDir memfs ''/b/k'' ''2024-01-02'' sampleNow repoDisk)) of
         (err, result, s) \<Rightarrow>
           err \<noteq> None \<and> CopiedFiles result = 2 \<and> SkippedFiles result = 1 \<and> PartialSuccess result)
   \<and> handleBackupFlow memfs (sampleGit [''gone.txt'', ''keep.txt'']) globMatch
        (sampleConfig 0 0 0 0 True) ''/r'' ''/b/k'' sampleNow (unixNano sampleNow) False repoDisk
       = ((None, Some ErrCritical), repoDisk)
   \<and> Stat memfs ''/b/k/2024-01-02/090000-000000042/.done''
        (snd (handleBackupFlow memfs (sampleGit [''gone.txt'', ''keep.txt'']) globMatch
               (sampleConfig 0 0 0 0 True) ''/r'' ''/b/k'' sampleNow (unixNano sampleNow) False repoDisk))
       = Inl ErrNotExist"
  by code_simp



section \<open>Properties of the hook subcommands\<close>

lemma runBackupWithNotify_exit:
  "fst (runBackupWithNotify backup env hookCfg preflight s) = exitSuccess"
  by (simp add: runBackupWithNotify_def split: prod.splits option.splits)

lemma runPostRewriteBackup_exit:
  "fst (runPostRewriteBackup backup env fs hookCfg preflight stampPath s) = exitSuccess"
  by (simp add: runPostRewriteBackup_def split: prod.splits option.splits)

lemma runHookPostCommit_exit:
  "fst (runHookPostCommit backup env fs git hookCfg s) = exitSuccess"
  by (simp add: runHookPostCommit_def runBackupWithNotify_exit split: option.splits sum.splits)

lemma runHookPostMerge_exit:
  "fst (runHookPostMerge backup env fs git hookCfg s) = exitSuccess"
  by (simp add: runHookPostMerge_def runBackupWithNotify_exit split: option.splits sum.splits)

lemma runHookPostRewrite_exit:
  "fst (runHookPostRewrite backup env fs git hookCfg command s) = exitSuccess"
  by (simp add: runHookPostRewrite_def runPostRewriteBackup_exit Let_def split: option.splits sum.splits)

lemma hookBackup_fails:
  "fst (hookBackup [''gone.txt'', ''keep.txt''] (sampleConfig 0 0 0 0 True) repoDisk)
     = (None, Some ErrCritical)"
  by code_simp

lemma hook_reaches_backup:
  "mem_readFile ''/b/k/2024-01-02/090000-000000042/.done''
     (snd (runHookPostCommit (hookBackup [''keep.txt'']) (hookSetup []) memfs hookGit
             \<lparr>hookVerbose = False, hookDryRun = False, hookNoNotify = True\<rparr> repoDisk)) = Inr []"
  by code_simp


text \<open>
  Claim C10. Each of the three hook subcommands returns exit code 0 on every path:
  whatever the preflight finds (no Git repository, backups disabled, no configuration,
  no backup directory), whether a rebase is in progress or the debounce is active,
  whether the context is cancelled, and whatever \<open>Backup\<close> returns, \<open>ErrCritical\<close>,
  \<open>ErrLockBusy\<close> and \<open>ErrInterrupted\<close> included.
\<close>

theorem C10_hooks_exit_zero:
  "fst (runHookPostCommit backup env fs git hookCfg s) = 0
   \<and> fst (runHookPostMerge backup env fs git hookCfg s) = 0
   \<and> fst (runHookPostRewrite backup env fs git hookCfg command s) = 0"
  using runHookPostCommit_exit [of backup env fs git hookCfg s]
    runHookPostMerge_exit [of backup env fs git hookCfg s]
    runHookPostRewrite_exit [of backup env fs git hookCfg command s]
  by (simp add: exitSuccess_def)

theorem C10_hooks_exit_zero_witness:
  "fst (hookBackup [''gone.txt'', ''keep.txt''] (sampleConfig 0 0 0 0 True) repoDisk)
     = (None, Some ErrCritical)
   \<and> fst (runHookPostCommit (hookBackup [''gone.txt'', ''keep.txt'']) (hookSetup []) memfs hookGit
            \<lparr>hookVerbose = False, hookDryRun = False, hookNoNotify = True\<rparr> repoDisk) = 0
   \<and> fst (runHookPostMerge (hookBackup [''gone.txt'', ''keep.txt'']) (hookSetup []) memfs hookGit
            \<lparr>hookVerbose = False, hookDryRun = False, hookNoNotify = True\<rparr> repoDisk) = 0
   \<and> fst (runHookPostRewrite (hookBackup [''gone.txt'', ''keep.txt'']) (hookSetup []) memfs hookGit
            \<lparr>hookVerbose = False, hookDryRun = False, hookNoNotify = True\<rparr> ''rebase'' repoDisk) = 0"
  using C10_hooks_exit_zero [of "hookBackup [''gone.txt'', ''keep.txt'']" "hookSetup []" memfs hookGit
      "\<lparr>hookVerbose = False, hookDryRun = False, hookNoNotify = True\<rparr>" repoDisk "''rebase''"]
    hookBackup_fails
  by simp

end
